theory Spec2Isabelle
  imports Main "HOL-Library.Word"
begin

section \<open>JavaScript values and exceptions\<close>

text \<open>
  The helpers and route handlers of the repository receive parsed JSON (typed \<open>any\<close>)
  from request and response bodies. A value is one of the JavaScript values JSON can
  produce, or \<open>undefined\<close> (the result of reading a property that is not there).
  A number is kept as the two observations the code makes of it: whether it is falsy
  (\<open>0\<close>, \<open>-0\<close>) and the text \<open>String(n)\<close> gives. An object is its list of entries.
  Strings of URLs, messages and keys are \<open>string\<close>; console output is not modelled.
\<close>

datatype jsval =
    JUndefined
  | JNull
  | JBool bool
  | JNum bool string
  | JStr string
  | JArr "jsval list"
  | JObj "(string \<times> jsval) list"

text \<open>
  A thrown value: \<open>ErrorObj m\<close> is an instance of \<open>Error\<close> with message \<open>m\<close>
  (\<open>error instanceof Error\<close> holds), \<open>Thrown v\<close> is any other thrown value.
\<close>

datatype 'a thrown = ErrorObj string | Thrown 'a

text \<open>ToBoolean, as \<open>if (x)\<close> and \<open>!x\<close> apply it.\<close>

fun truthy :: "jsval \<Rightarrow> bool" where
  "truthy JUndefined = False"
| "truthy JNull = False"
| "truthy (JBool b) = b"
| "truthy (JNum z s) = (\<not> z)"
| "truthy (JStr s) = (s \<noteq> [])"
| "truthy (JArr xs) = True"
| "truthy (JObj kvs) = True"

text \<open>
  ToString, as template literals, \<open>new URL(x)\<close> and \<open>fetch(x)\<close> apply it: an array
  joins its elements with commas, \<open>null\<close> and \<open>undefined\<close> elements giving the empty
  string; a plain object gives \<open>[object Object]\<close> through \<open>Object.prototype.toString\<close>.
  An object with an entry \<open>toString\<close> of its own hides that method with a value that
  cannot be called (JSON holds no functions), \<open>valueOf\<close> gives no primitive either, and
  the conversion throws a TypeError.
\<close>

fun to_string :: "jsval \<Rightarrow> jsval thrown + string"
  and join_elems :: "jsval list \<Rightarrow> jsval thrown + string" where
  "to_string JUndefined = Inr ''undefined''"
| "to_string JNull = Inr ''null''"
| "to_string (JBool b) = Inr (if b then ''true'' else ''false'')"
| "to_string (JNum z s) = Inr s"
| "to_string (JStr s) = Inr s"
| "to_string (JArr xs) = join_elems xs"
| "to_string (JObj kvs) =
     (case map_of kvs ''toString'' of
        None \<Rightarrow> Inr ''[object Object]''
      | Some v \<Rightarrow> Inl (ErrorObj ''Cannot convert object to primitive value''))"
| "join_elems [] = Inr []"
| "join_elems [x] = (if x = JUndefined \<or> x = JNull then Inr [] else to_string x)"
| "join_elems (x # y # ys) =
     (case (if x = JUndefined \<or> x = JNull then Inr [] else to_string x) of
        Inl e \<Rightarrow> Inl e
      | Inr s \<Rightarrow>
          (case join_elems (y # ys) of
             Inl e \<Rightarrow> Inl e
           | Inr t \<Rightarrow> Inr (s @ '','' @ t)))"

text \<open>
  Reading a property \<open>v.k\<close>, for the keys the code reads (\<open>data\<close>, \<open>slug\<close>, \<open>secret\<close>,
  \<open>url\<close>), none of which is a built-in property of strings, numbers, booleans or arrays:
  \<open>null\<close> and \<open>undefined\<close> throw a TypeError, an object gives its entry or
  \<open>undefined\<close>, every other value gives \<open>undefined\<close>.
\<close>

fun js_get :: "jsval \<Rightarrow> string \<Rightarrow> 'a thrown + jsval" where
  "js_get JUndefined k =
     Inl (ErrorObj (''Cannot read properties of undefined (reading '' @ [CHR 0x27] @ k
                    @ [CHR 0x27] @ '')''))"
| "js_get JNull k =
     Inl (ErrorObj (''Cannot read properties of null (reading '' @ [CHR 0x27] @ k
                    @ [CHR 0x27] @ '')''))"
| "js_get (JObj kvs) k = Inr (case map_of kvs k of None \<Rightarrow> JUndefined | Some v \<Rightarrow> v)"
| "js_get v k = Inr JUndefined"

text \<open>
  The destructuring \<open>const { k } = body\<close>: the same read, with the engine's message
  for a \<open>null\<close> or \<open>undefined\<close> body.
\<close>

fun js_destructure :: "jsval \<Rightarrow> string \<Rightarrow> 'a thrown + jsval" where
  "js_destructure JUndefined k =
     Inl (ErrorObj (''Cannot destructure property '' @ [CHR 0x27] @ k @ [CHR 0x27]
                    @ '' of '' @ [CHR 0x27] @ ''body'' @ [CHR 0x27]
                    @ '' as it is undefined.''))"
| "js_destructure JNull k =
     Inl (ErrorObj (''Cannot destructure property '' @ [CHR 0x27] @ k @ [CHR 0x27]
                    @ '' of '' @ [CHR 0x27] @ ''body'' @ [CHR 0x27]
                    @ '' as it is null.''))"
| "js_destructure v k = js_get v k"

text \<open>The optional element access \<open>v?.[0]\<close>.\<close>

fun js_opt_first :: "jsval \<Rightarrow> jsval" where
  "js_opt_first (JArr xs) = (case xs of [] \<Rightarrow> JUndefined | x # _ \<Rightarrow> x)"
| "js_opt_first (JStr s) = (case s of [] \<Rightarrow> JUndefined | c # _ \<Rightarrow> JStr [c])"
| "js_opt_first (JObj kvs) = (case map_of kvs ''0'' of None \<Rightarrow> JUndefined | Some v \<Rightarrow> v)"
| "js_opt_first v = JUndefined"

section \<open>The Directus helper (src/lib/directus.ts)\<close>

text \<open>
  The module constants read the process environment once:
  \<open>process.env.DIRECTUS_URL || 'https://api.microheal.in'\<close> and
  \<open>process.env.DIRECTUS_TOKEN || ''\<close>. An unset variable is \<open>None\<close>; an empty one is falsy.
\<close>

record directus_config =
  env_DIRECTUS_URL :: "string option"
  env_DIRECTUS_TOKEN :: "string option"

definition DIRECTUS_URL :: "directus_config \<Rightarrow> string" where
  "DIRECTUS_URL cfg =
     (case env_DIRECTUS_URL cfg of
        None \<Rightarrow> ''https://api.microheal.in''
      | Some u \<Rightarrow> (if u \<noteq> [] then u else ''https://api.microheal.in''))"

definition DIRECTUS_TOKEN :: "directus_config \<Rightarrow> string" where
  "DIRECTUS_TOKEN cfg =
     (case env_DIRECTUS_TOKEN cfg of
        None \<Rightarrow> []
      | Some t \<Rightarrow> (if t \<noteq> [] then t else []))"

text \<open>
  The cache directive of \<open>getPost\<close>: \<open>RequestInit['cache']\<close>, a string of the fetch
  standard's cache modes, or an object with an optional \<open>next\<close> entry.
\<close>

datatype request_cache = Default | ForceCache | NoCache | NoStore | OnlyIfCached | Reload

fun request_cache_string :: "request_cache \<Rightarrow> string" where
  "request_cache_string Default = ''default''"
| "request_cache_string ForceCache = ''force-cache''"
| "request_cache_string NoCache = ''no-cache''"
| "request_cache_string NoStore = ''no-store''"
| "request_cache_string OnlyIfCached = ''only-if-cached''"
| "request_cache_string Reload = ''reload''"

datatype revalidate = RevalidateSeconds int | RevalidateFalse

record next_config =
  revalidate :: "revalidate option"
  tags :: "string list option"

datatype cache_options = CacheString request_cache | CacheObject "next_config option"

text \<open>The options handed to \<open>fetch\<close>, and the call itself: URL and options.\<close>

record fetch_options =
  fo_headers :: "(string \<times> string) list"
  fo_cache :: "request_cache option"
  fo_next :: "next_config option"

record fetch_call =
  fc_url :: string
  fc_options :: fetch_options

text \<open>
  What the CMS answers: \<open>fetch\<close> rejects (a network failure), or resolves to a response
  with its \<open>ok\<close> flag, its status text and the outcome of \<open>response.json()\<close>, which
  rejects on a body that is not JSON.
\<close>

record cms_response =
  cr_ok :: bool
  cr_statusText :: string
  cr_json :: "jsval thrown + jsval"

type_synonym cms = "fetch_call \<Rightarrow> jsval thrown + cms_response"

definition directus_headers :: "directus_config \<Rightarrow> (string \<times> string) list" where
  "directus_headers cfg =
     (if DIRECTUS_TOKEN cfg \<noteq> []
      then [(''Content-Type'', ''application/json''),
            (''Authorization'', ''Bearer '' @ DIRECTUS_TOKEN cfg)]
      else [(''Content-Type'', ''application/json'')])"

subsection \<open>getAllSlugs\<close>

definition getAllSlugs_call :: "directus_config \<Rightarrow> fetch_call" where
  "getAllSlugs_call cfg =
     \<lparr> fc_url = DIRECTUS_URL cfg @ ''/items/blogs?fields=slug'',
       fc_options = \<lparr> fo_headers = directus_headers cfg, fo_cache = Some NoStore, fo_next = None \<rparr> \<rparr>"

text \<open>The callback \<open>(post) => post.slug\<close> over the elements, stopping at the first throw.\<close>

fun map_slug :: "jsval list \<Rightarrow> jsval thrown + jsval list" where
  "map_slug [] = Inr []"
| "map_slug (p # ps) =
     (case js_get p ''slug'' of
        Inl e \<Rightarrow> Inl e
      | Inr s \<Rightarrow> (case map_slug ps of Inl e \<Rightarrow> Inl e | Inr ss \<Rightarrow> Inr (s # ss)))"

text \<open>
  \<open>d?.map(...) || []\<close>: \<open>undefined\<close> and \<open>null\<close> short-circuit to \<open>undefined\<close>, which is
  falsy; an array is mapped, and the result, an array, is truthy; any other value has no
  callable \<open>map\<close> and the call throws a TypeError.
\<close>

fun opt_map_slug_or_empty :: "jsval \<Rightarrow> jsval thrown + jsval list" where
  "opt_map_slug_or_empty JUndefined = Inr []"
| "opt_map_slug_or_empty JNull = Inr []"
| "opt_map_slug_or_empty (JArr ps) = map_slug ps"
| "opt_map_slug_or_empty v = Inl (ErrorObj ''data.data?.map is not a function'')"

text \<open>The body of the \<open>try\<close> block of \<open>getAllSlugs\<close>.\<close>

definition getAllSlugs_try :: "directus_config \<Rightarrow> cms \<Rightarrow> jsval thrown + jsval list" where
  "getAllSlugs_try cfg fetch =
     (case fetch (getAllSlugs_call cfg) of
        Inl e \<Rightarrow> Inl e
      | Inr response \<Rightarrow>
          if \<not> cr_ok response then Inr []
          else (case cr_json response of
                  Inl e \<Rightarrow> Inl e
                | Inr data \<Rightarrow>
                    (case js_get data ''data'' of
                       Inl e \<Rightarrow> Inl e
                     | Inr d \<Rightarrow> opt_map_slug_or_empty d)))"

text \<open>\<open>getAllSlugs\<close>: the \<open>catch\<close> block returns \<open>[]\<close> for whatever was thrown.\<close>

definition getAllSlugs :: "directus_config \<Rightarrow> cms \<Rightarrow> jsval thrown + jsval list" where
  "getAllSlugs cfg fetch =
     (case getAllSlugs_try cfg fetch of Inl e \<Rightarrow> Inr [] | Inr slugs \<Rightarrow> Inr slugs)"

subsection \<open>getPost\<close>

text \<open>
  The cache options are applied only when truthy: \<open>undefined\<close> is not, every cache-mode
  string and every object is. A string sets \<open>cache\<close>; an object that has the key
  \<open>next\<close> sets \<open>next\<close>.
\<close>

definition getPost_options :: "directus_config \<Rightarrow> cache_options option \<Rightarrow> fetch_options" where
  "getPost_options cfg cacheOptions =
     (let fetchOptions = \<lparr> fo_headers = directus_headers cfg, fo_cache = None, fo_next = None \<rparr>
      in case cacheOptions of
           None \<Rightarrow> fetchOptions
         | Some (CacheString c) \<Rightarrow> fetchOptions \<lparr> fo_cache := Some c \<rparr>
         | Some (CacheObject None) \<Rightarrow> fetchOptions
         | Some (CacheObject (Some n)) \<Rightarrow> fetchOptions \<lparr> fo_next := Some n \<rparr>)"

definition getPost_call :: "directus_config \<Rightarrow> string \<Rightarrow> cache_options option \<Rightarrow> fetch_call" where
  "getPost_call cfg slug cacheOptions =
     \<lparr> fc_url = DIRECTUS_URL cfg @ ''/items/blogs?filter[slug][_eq]='' @ slug
                 @ ''&fields=slug,title,content,date_created,date_updated'',
       fc_options = getPost_options cfg cacheOptions \<rparr>"

text \<open>The body of the \<open>try\<close> block of \<open>getPost\<close>; \<open>JNull\<close> is the returned \<open>null\<close>.\<close>

definition getPost_try ::
  "directus_config \<Rightarrow> cms \<Rightarrow> string \<Rightarrow> cache_options option \<Rightarrow> jsval thrown + jsval" where
  "getPost_try cfg fetch slug cacheOptions =
     (case fetch (getPost_call cfg slug cacheOptions) of
        Inl e \<Rightarrow> Inl e
      | Inr response \<Rightarrow>
          if \<not> cr_ok response then Inr JNull
          else (case cr_json response of
                  Inl e \<Rightarrow> Inl e
                | Inr data \<Rightarrow>
                    (case js_get data ''data'' of
                       Inl e \<Rightarrow> Inl e
                     | Inr d \<Rightarrow>
                         (let post = js_opt_first d
                          in if \<not> truthy post then Inr JNull else Inr post))))"

definition getPost ::
  "directus_config \<Rightarrow> cms \<Rightarrow> string \<Rightarrow> cache_options option \<Rightarrow> jsval thrown + jsval" where
  "getPost cfg fetch slug cacheOptions =
     (case getPost_try cfg fetch slug cacheOptions of Inl e \<Rightarrow> Inr JNull | Inr post \<Rightarrow> Inr post)"

section \<open>The metrics helper (src/lib/metrics.ts and src/unnamed/part_002)\<close>

subsection \<open>Text of a fetched body\<close>

text \<open>
  A JavaScript string is a sequence of UTF-16 code units; \<open>substring\<close>, the regular
  expression \<open>/\s+/g\<close> (no \<open>u\<close> flag) and \<open>trim\<close> work on code units, \<open>Blob\<close> encodes
  them as UTF-8. The body of a fetched page is therefore a list of 16-bit words.
\<close>

type_synonym jstext = "16 word list"

text \<open>
  The code units \<open>\s\<close> matches and \<open>trim\<close> strips: ECMAScript's WhiteSpace and
  LineTerminator.
\<close>

definition is_ws :: "16 word \<Rightarrow> bool" where
  "is_ws c \<longleftrightarrow>
     c = 0x0009 \<or> c = 0x000A \<or> c = 0x000B \<or> c = 0x000C \<or> c = 0x000D \<or> c = 0x0020
   \<or> c = 0x00A0 \<or> c = 0x1680 \<or> (0x2000 \<le> c \<and> c \<le> 0x200A)
   \<or> c = 0x2028 \<or> c = 0x2029 \<or> c = 0x202F \<or> c = 0x205F \<or> c = 0x3000 \<or> c = 0xFEFF"

text \<open>\<open>s.replace(/\s+/g, ' ')\<close>: every maximal run of whitespace becomes one space.\<close>

function replace_ws_runs :: "jstext \<Rightarrow> jstext" where
  "replace_ws_runs [] = []"
| "replace_ws_runs (c # cs) =
     (if is_ws c then 0x0020 # replace_ws_runs (dropWhile is_ws cs)
      else c # replace_ws_runs cs)"
  by pat_completeness auto
termination
  by (relation "measure length") (auto simp: length_dropWhile_le less_Suc_eq_le)

text \<open>\<open>s.trim()\<close>: whitespace stripped from both ends.\<close>

definition trim :: "jstext \<Rightarrow> jstext" where
  "trim s = rev (dropWhile is_ws (rev (dropWhile is_ws s)))"

text \<open>\<open>s.substring(0, n)\<close>: the first \<open>n\<close> code units, all of them when there are fewer.\<close>

definition substring0 :: "nat \<Rightarrow> jstext \<Rightarrow> jstext" where
  "substring0 n s = take n s"

text \<open>\<open>html.substring(0, 300).replace(/\s+/g, ' ').trim()\<close>\<close>

definition html_preview :: "jstext \<Rightarrow> jstext" where
  "html_preview html = trim (replace_ws_runs (substring0 300 html))"

text \<open>
  \<open>new Blob([html]).size\<close>: the length of the UTF-8 encoding. A surrogate pair is one
  code point of four bytes; a lone surrogate is replaced by U+FFFD, three bytes.
\<close>

definition unit_bytes :: "16 word \<Rightarrow> nat" where
  "unit_bytes c = (if c < 0x0080 then 1 else if c < 0x0800 then 2 else 3)"

definition is_high_surrogate :: "16 word \<Rightarrow> bool" where
  "is_high_surrogate c \<longleftrightarrow> 0xD800 \<le> c \<and> c \<le> 0xDBFF"

definition is_low_surrogate :: "16 word \<Rightarrow> bool" where
  "is_low_surrogate c \<longleftrightarrow> 0xDC00 \<le> c \<and> c \<le> 0xDFFF"

fun blob_size :: "jstext \<Rightarrow> nat" where
  "blob_size [] = 0"
| "blob_size [c] = unit_bytes c"
| "blob_size (c # d # cs) =
     (if is_high_surrogate c \<and> is_low_surrogate d then 4 + blob_size cs
      else unit_bytes c + blob_size (d # cs))"

subsection \<open>Numbers as text\<close>

text \<open>The decimal digit of a number below ten.\<close>

definition digit :: "nat \<Rightarrow> char" where
  "digit d = ''0123456789'' ! d"

function string_of_nat :: "nat \<Rightarrow> string" where
  "string_of_nat n =
     (if n < 10 then [digit n]
      else string_of_nat (n div 10) @ [digit (n mod 10)])"
  by pat_completeness auto
termination
  by (relation "measure id") auto

text \<open>
  \<open>(htmlSize / 1024).toFixed(2)\<close>: the quotient is exact in binary floating point, and
  \<open>toFixed\<close> takes the nearest hundredth, the larger one on a tie.
\<close>

definition size_kb :: "nat \<Rightarrow> string" where
  "size_kb htmlSize =
     (let h = (50 * htmlSize + 256) div 512
      in string_of_nat (h div 100) @ ''.''
         @ [digit ((h mod 100) div 10), digit (h mod 10)])"

subsection \<open>The result and the environment\<close>

record MetricsResult =
  url :: jsval
  status :: nat
  statusText :: string
  ttfb :: int
  totalTime :: int
  htmlSize :: int
  htmlSizeKB :: string
  headers :: "string \<rightharpoonup> string"
  htmlPreview :: jstext
  timestamp :: string
  error :: "string option"

text \<open>
  The response of the probed page: status, status text, the headers in the order
  \<open>headers.forEach\<close> visits them, and the outcome of \<open>response.text()\<close>.
\<close>

record page_response =
  pr_status :: nat
  pr_statusText :: string
  pr_headers :: "(string \<times> string) list"
  pr_text :: "jsval thrown + jstext"

text \<open>
  The environment of one call: \<open>process.env.VERCEL_URL\<close>; \<open>fetch\<close>, always called with
  the same options (\<open>cache: 'no-store'\<close>, the two request headers, \<open>redirect: 'follow'\<close>),
  rejecting or resolving for a URL; \<open>date_now k\<close>, what the \<open>k\<close>-th call of
  \<open>Date.now()\<close> returns (the first is call 0); and the text of
  \<open>new Date().toISOString()\<close> when the result is built.
\<close>

record metrics_env =
  VERCEL_URL :: "string option"
  page_fetch :: "string \<Rightarrow> jsval thrown + page_response"
  date_now :: "nat \<Rightarrow> int"
  iso_now :: string

text \<open>\<open>error instanceof Error ? error.message : 'Unknown error'\<close>\<close>

fun error_message :: "'a thrown \<Rightarrow> string" where
  "error_message (ErrorObj m) = m"
| "error_message (Thrown v) = ''Unknown error''"

text \<open>
  The \<open>headers\<close> object filled by \<open>response.headers.forEach\<close>. The assignment
  \<open>headers[key] = value\<close> with the key \<open>__proto__\<close> reaches the setter of
  \<open>Object.prototype\<close>, which ignores a string, and stores nothing.
\<close>

definition collect_headers :: "(string \<times> string) list \<Rightarrow> (string \<rightharpoonup> string)" where
  "collect_headers hs =
     fold (\<lambda>(key, value) headers. if key = ''__proto__'' then headers else headers(key \<mapsto> value))
       hs Map.empty"

subsection \<open>measurePageMetrics of src/unnamed/part_002, the version that returns the failure\<close>

text \<open>
  \<open>url.startsWith('/')\<close>: only a string has the method; on any other value the call
  throws a TypeError.
\<close>

fun starts_with_slash :: "jsval \<Rightarrow> jsval thrown + bool" where
  "starts_with_slash (JStr s) = Inr (case s of [] \<Rightarrow> False | c # _ \<Rightarrow> c = CHR ''/'')"
| "starts_with_slash JUndefined =
     Inl (ErrorObj ''Cannot read properties of undefined (reading 'startsWith')'')"
| "starts_with_slash JNull =
     Inl (ErrorObj ''Cannot read properties of null (reading 'startsWith')'')"
| "starts_with_slash v = Inl (ErrorObj ''url.startsWith is not a function'')"

text \<open>The URL fetched: a site-relative URL is resolved against the deployment's origin.\<close>

definition fetch_url :: "metrics_env \<Rightarrow> jsval \<Rightarrow> jsval thrown + string" where
  "fetch_url env u =
     (case starts_with_slash u of
        Inl e \<Rightarrow> Inl e
      | Inr isRelative \<Rightarrow>
          (case to_string u of
             Inl e \<Rightarrow> Inl e
           | Inr s \<Rightarrow>
               Inr (if isRelative
                    then (case VERCEL_URL env of
                            None \<Rightarrow> ''http://localhost:3000''
                          | Some v \<Rightarrow> (if v \<noteq> [] then ''https://'' @ v
                                       else ''http://localhost:3000''))
                         @ s
                    else s)))"

text \<open>
  The \<open>catch\<close> block: \<open>now\<close> is what \<open>Date.now()\<close> returns there, \<open>ttfbTime\<close> the
  variable as the \<open>try\<close> block left it; \<open>ttfbTime || totalTime\<close> takes the second when
  the first is 0.
\<close>

definition fetch_failed ::
  "metrics_env \<Rightarrow> jsval \<Rightarrow> int \<Rightarrow> int \<Rightarrow> int \<Rightarrow> jsval thrown \<Rightarrow> MetricsResult" where
  "fetch_failed env u startTime ttfbTime now e =
     (let totalTime = now - startTime
      in \<lparr> url = u,
           status = 0,
           statusText = ''Fetch Failed'',
           ttfb = (if ttfbTime \<noteq> 0 then ttfbTime else totalTime),
           totalTime = totalTime,
           htmlSize = 0,
           htmlSizeKB = ''0.00'',
           headers = Map.empty,
           htmlPreview = [],
           timestamp = iso_now env,
           error = Some (error_message e) \<rparr>)"

definition measurePageMetrics :: "metrics_env \<Rightarrow> jsval \<Rightarrow> jsval thrown + MetricsResult" where
  "measurePageMetrics env u =
     (let startTime = date_now env 0
      in case fetch_url env u of
           Inl e \<Rightarrow> Inr (fetch_failed env u startTime 0 (date_now env 1) e)
         | Inr fetchUrl \<Rightarrow>
             (case page_fetch env fetchUrl of
                Inl e \<Rightarrow> Inr (fetch_failed env u startTime 0 (date_now env 1) e)
              | Inr response \<Rightarrow>
                  (let ttfbTime = date_now env 1 - startTime
                   in case pr_text response of
                        Inl e \<Rightarrow> Inr (fetch_failed env u startTime ttfbTime (date_now env 2) e)
                      | Inr html \<Rightarrow>
                          (let totalTime = date_now env 2 - startTime;
                               size = blob_size html
                           in Inr \<lparr> url = u,
                                    status = pr_status response,
                                    statusText = pr_statusText response,
                                    ttfb = ttfbTime,
                                    totalTime = totalTime,
                                    htmlSize = int size,
                                    htmlSizeKB = size_kb size,
                                    headers = collect_headers (pr_headers response),
                                    htmlPreview = html_preview html,
                                    timestamp = iso_now env,
                                    error = (if pr_status response \<ge> 400
                                             then Some (''HTTP '' @ string_of_nat (pr_status response)
                                                        @ '': '' @ pr_statusText response)
                                             else None) \<rparr>))))"

subsection \<open>measurePageMetrics of src/lib/metrics.ts, the version that throws the failure\<close>

text \<open>The object literal the \<open>catch\<close> block throws; it is not an \<open>Error\<close>.\<close>

record MetricsFailure =
  mf_url :: jsval
  mf_status :: nat
  mf_statusText :: string
  mf_ttfb :: int
  mf_totalTime :: int
  mf_error :: string
  mf_timestamp :: string

definition fetch_failed_lib ::
  "metrics_env \<Rightarrow> jsval \<Rightarrow> int \<Rightarrow> int \<Rightarrow> int \<Rightarrow> jsval thrown \<Rightarrow> MetricsFailure" where
  "fetch_failed_lib env u startTime ttfbTime now e =
     (let totalTime = now - startTime
      in \<lparr> mf_url = u,
           mf_status = 0,
           mf_statusText = ''Fetch Failed'',
           mf_ttfb = (if ttfbTime \<noteq> 0 then ttfbTime else totalTime),
           mf_totalTime = totalTime,
           mf_error = error_message e,
           mf_timestamp = iso_now env \<rparr>)"

text \<open>
  This version has no \<open>error\<close> entry in a returned result and passes \<open>url\<close> to \<open>fetch\<close>
  as it is, which takes its string; a conversion that throws rejects the call.
\<close>

definition measurePageMetrics_lib ::
  "metrics_env \<Rightarrow> jsval \<Rightarrow> MetricsFailure thrown + MetricsResult" where
  "measurePageMetrics_lib env u =
     (let startTime = date_now env 0
      in case to_string u of
           Inl e \<Rightarrow> Inl (Thrown (fetch_failed_lib env u startTime 0 (date_now env 1) e))
         | Inr target \<Rightarrow>
             (case page_fetch env target of
                Inl e \<Rightarrow> Inl (Thrown (fetch_failed_lib env u startTime 0 (date_now env 1) e))
              | Inr response \<Rightarrow>
                  (let ttfbTime = date_now env 1 - startTime
                   in case pr_text response of
                        Inl e \<Rightarrow>
                          Inl (Thrown (fetch_failed_lib env u startTime ttfbTime (date_now env 2) e))
                      | Inr html \<Rightarrow>
                          (let totalTime = date_now env 2 - startTime;
                               size = blob_size html
                           in Inr \<lparr> url = u,
                                    status = pr_status response,
                                    statusText = pr_statusText response,
                                    ttfb = ttfbTime,
                                    totalTime = totalTime,
                                    htmlSize = int size,
                                    htmlSizeKB = size_kb size,
                                    headers = collect_headers (pr_headers response),
                                    htmlPreview = html_preview html,
                                    timestamp = iso_now env,
                                    error = None \<rparr>))))"

section \<open>The metrics endpoint (src/app/api/metrics/route.ts and src/unnamed/part_000)\<close>

text \<open>
  \<open>new URL(x)\<close> is the platform's parser: it throws on a string that is not an absolute
  URL, and otherwise gives an object of which the handler reads \<open>host\<close>, \<open>pathname\<close> and
  \<open>search\<close>. The handlers take it as a parameter, \<open>None\<close> standing for the throw.
\<close>

record url_parts =
  host :: string
  pathname :: string
  search :: string

type_synonym url_parser = "string \<Rightarrow> url_parts option"

text \<open>
  \<open>new URL(x)\<close> on a value: the value is converted to a string and parsed; a throw of
  either step is a throw of the constructor.
\<close>

definition construct_URL :: "url_parser \<Rightarrow> jsval \<Rightarrow> url_parts option" where
  "construct_URL new_URL x = (case to_string x of Inl e \<Rightarrow> None | Inr s \<Rightarrow> new_URL s)"

text \<open>
  The request: the outcome of \<open>request.json()\<close>, which rejects on a body that is not JSON,
  and \<open>request.headers.get('host')\<close>.
\<close>

record metrics_request =
  rq_json :: "jsval thrown + jsval"
  rq_host :: "string option"

text \<open>
  The response: its status and JSON body, which is \<open>{error}\<close>, \<open>{error, message}\<close> or
  the metrics. \<open>measured\<close> lists the arguments \<open>measurePageMetrics\<close> was called with
  while the request was handled.
\<close>

datatype 'r metrics_body =
    ErrorBody string
  | ErrorMessageBody string string
  | MetricsBody 'r

record 'r metrics_response =
  code :: nat
  body :: "'r metrics_body"
  measured :: "jsval list"

text \<open>The outer \<open>catch\<close> block of both versions of the handler.\<close>

definition metrics_failed :: "'e thrown \<Rightarrow> jsval list \<Rightarrow> 'r metrics_response" where
  "metrics_failed e calls =
     \<lparr> code = 500,
       body = ErrorMessageBody ''Failed to measure metrics'' (error_message e),
       measured = calls \<rparr>"

text \<open>The handler of src/app/api/metrics/route.ts.\<close>

definition POST_metrics_src ::
  "url_parser \<Rightarrow> (jsval \<Rightarrow> 'e thrown + 'r) \<Rightarrow> metrics_request \<Rightarrow> 'r metrics_response" where
  "POST_metrics_src new_URL measurePage request =
     (case rq_json request of
        Inl e \<Rightarrow> metrics_failed e []
      | Inr b \<Rightarrow>
          (case js_destructure b ''url'' of
             Inl e \<Rightarrow> metrics_failed (e :: unit thrown) []
           | Inr u \<Rightarrow>
               if \<not> truthy u
               then \<lparr> code = 400, body = ErrorBody ''Missing required field: url'', measured = [] \<rparr>
               else (case construct_URL new_URL u of
                       None \<Rightarrow> \<lparr> code = 400, body = ErrorBody ''Invalid URL format'', measured = [] \<rparr>
                     | Some _ \<Rightarrow>
                         (case measurePage u of
                            Inl e \<Rightarrow> metrics_failed e [u]
                          | Inr metrics \<Rightarrow>
                              \<lparr> code = 200, body = MetricsBody metrics, measured = [u] \<rparr>))))"

text \<open>
  The handler of src/unnamed/part_000: a URL on the request's own host is measured by its
  path and query.
\<close>

definition test_url :: "url_parser \<Rightarrow> string option \<Rightarrow> jsval \<Rightarrow> jsval" where
  "test_url new_URL requestHost u =
     (case construct_URL new_URL u of
        None \<Rightarrow> u
      | Some urlObj \<Rightarrow>
          (case requestHost of
             None \<Rightarrow> u
           | Some h \<Rightarrow> (if h \<noteq> [] \<and> host urlObj = h
                        then JStr (pathname urlObj @ search urlObj) else u)))"

definition POST_metrics ::
  "url_parser \<Rightarrow> (jsval \<Rightarrow> 'e thrown + 'r) \<Rightarrow> metrics_request \<Rightarrow> 'r metrics_response" where
  "POST_metrics new_URL measurePage request =
     (case rq_json request of
        Inl e \<Rightarrow> metrics_failed e []
      | Inr b \<Rightarrow>
          (case js_destructure b ''url'' of
             Inl e \<Rightarrow> metrics_failed (e :: unit thrown) []
           | Inr u \<Rightarrow>
               if \<not> truthy u
               then \<lparr> code = 400, body = ErrorBody ''Missing required field: url'', measured = [] \<rparr>
               else (case construct_URL new_URL u of
                       None \<Rightarrow> \<lparr> code = 400, body = ErrorBody ''Invalid URL format'', measured = [] \<rparr>
                     | Some _ \<Rightarrow>
                         (let testUrl = test_url new_URL (rq_host request) u
                          in case measurePage testUrl of
                               Inl e \<Rightarrow> metrics_failed e [testUrl]
                             | Inr metrics \<Rightarrow>
                                 \<lparr> code = 200, body = MetricsBody metrics,
                                   measured = [testUrl] \<rparr>))))"

section \<open>The revalidation endpoint (src/unnamed/part_001)\<close>

text \<open>
  The platform's \<open>revalidatePath\<close> either returns or throws, here \<open>Some\<close> of what it
  throws. The time is the text \<open>new Date().toISOString()\<close> gives when the confirmation
  is built.
\<close>

record revalidate_env =
  revalidatePath :: "string \<Rightarrow> jsval thrown option"
  rv_now :: string

text \<open>
  The JSON body of the response: \<open>{error}\<close>, \<open>{error, message}\<close>, or the confirmation
  \<open>{success, message, slug, revalidated, timestamp}\<close>.
\<close>

datatype revalidate_body =
    RvError string
  | RvErrorMessage string string
  | RvConfirmation bool string jsval "string list" string

text \<open>
  The response with its status; \<open>invalidated\<close> lists the paths for which
  \<open>revalidatePath\<close> returned while the request was handled.
\<close>

record revalidate_response =
  rv_code :: nat
  rv_body :: revalidate_body
  invalidated :: "string list"

definition revalidate_failed :: "'e thrown \<Rightarrow> string list \<Rightarrow> revalidate_response" where
  "revalidate_failed e paths =
     \<lparr> rv_code = 500,
       rv_body = RvErrorMessage ''Failed to revalidate'' (error_message e),
       invalidated = paths \<rparr>"

text \<open>
  The handler. \<open>const { slug, secret } = body\<close> reads both entries; the check of
  \<open>secret\<close> is commented out in the source, so the value read is not used. The slug is
  converted to a string first by the template literal of the log line, before any
  invalidation.
\<close>

definition POST_revalidate :: "revalidate_env \<Rightarrow> (jsval thrown + jsval) \<Rightarrow> revalidate_response" where
  "POST_revalidate env request_json =
     (case request_json of
        Inl e \<Rightarrow> revalidate_failed e []
      | Inr b \<Rightarrow>
          (case js_destructure b ''slug'' of
             Inl e \<Rightarrow> revalidate_failed (e :: unit thrown) []
           | Inr slug \<Rightarrow>
               (case js_destructure b ''secret'' of
                  Inl e \<Rightarrow> revalidate_failed (e :: unit thrown) []
                | Inr secret \<Rightarrow>
                    if \<not> truthy slug
                    then \<lparr> rv_code = 400, rv_body = RvError ''Missing required field: slug'',
                           invalidated = [] \<rparr>
                    else (case to_string slug of
                            Inl e \<Rightarrow> revalidate_failed e []
                          | Inr s \<Rightarrow>
                              (let isr = ''/blog/isr/'' @ s;
                                   ondemand = ''/blog/isr-ondemand/'' @ s
                               in case revalidatePath env isr of
                                    Some e \<Rightarrow> revalidate_failed e []
                                  | None \<Rightarrow>
                                      (case revalidatePath env ondemand of
                                         Some e \<Rightarrow> revalidate_failed e [isr]
                                       | None \<Rightarrow>
                                           \<lparr> rv_code = 200,
                                             rv_body = RvConfirmation True
                                                         ''Revalidation triggered successfully''
                                                         slug [isr, ondemand] (rv_now env),
                                             invalidated = [isr, ondemand] \<rparr>))))))"

section \<open>Example environments\<close>

text \<open>
  A CMS configured by default, holding the one item \<open>hello-world\<close>: it answers the
  request for that item and the request for all slugs with the item, and any other
  request with no match.
\<close>

definition demo_config :: directus_config where
  "demo_config = \<lparr> env_DIRECTUS_URL = None, env_DIRECTUS_TOKEN = None \<rparr>"

definition hello_world_post :: jsval where
  "hello_world_post =
     JObj [(''slug'', JStr ''hello-world''), (''title'', JStr ''Hello''),
           (''content'', JStr ''<p>Hi</p>'')]"

definition demo_cms :: cms where
  "demo_cms call =
     (if fc_url call = ''https://api.microheal.in/items/blogs?filter[slug][_eq]=hello-world&fields=slug,title,content,date_created,date_updated''
         \<or> fc_url call = ''https://api.microheal.in/items/blogs?fields=slug''
      then Inr \<lparr> cr_ok = True, cr_statusText = ''OK'',
                 cr_json = Inr (JObj [(''data'', JArr [hello_world_post])]) \<rparr>
      else Inr \<lparr> cr_ok = True, cr_statusText = ''OK'',
                 cr_json = Inr (JObj [(''data'', JArr [])]) \<rparr>)"

text \<open>
  A probe whose \<open>fetch\<close> rejects after 5 ms, and a probe of a page with a given body
  under a given clock; a clock that advances, and one that is set back by 3 ms while
  the body is read.
\<close>

definition unreachable_env :: metrics_env where
  "unreachable_env =
     \<lparr> VERCEL_URL = None,
       page_fetch = (\<lambda>target. Inl (ErrorObj ''fetch failed'')),
       date_now = (\<lambda>k. if k = 0 then 1000 else 1005),
       iso_now = ''2025-01-01T00:00:00.000Z'' \<rparr>"

definition page_env :: "jstext \<Rightarrow> (nat \<Rightarrow> int) \<Rightarrow> metrics_env" where
  "page_env html clock =
     \<lparr> VERCEL_URL = None,
       page_fetch = (\<lambda>target. Inr \<lparr> pr_status = 200, pr_statusText = ''OK'', pr_headers = [],
                                    pr_text = Inr html \<rparr>),
       date_now = clock,
       iso_now = ''2025-01-01T00:00:00.000Z'' \<rparr>"

definition steady_clock :: "nat \<Rightarrow> int" where
  "steady_clock k = (if k = 0 then 1000 else if k = 1 then 1005 else 1012)"

definition stepping_back_clock :: "nat \<Rightarrow> int" where
  "stepping_back_clock k = (if k = 0 then 1000 else if k = 1 then 1005 else 1002)"

text \<open>
  Three more CMS stubs. The first answers every request with one item whose slug is the
  URL that was requested. The second answers only a request that carries the given
  \<open>cache\<close> and \<open>next\<close> entries, with the item \<open>hello-world\<close>. The third holds two items,
  \<open>b\<close> before \<open>a\<close>. The fourth answers with a \<open>data\<close> array in which two of the four
  elements have no slug.
\<close>

definition echo_cms :: cms where
  "echo_cms call =
     Inr \<lparr> cr_ok = True, cr_statusText = ''OK'',
           cr_json = Inr (JObj [(''data'', JArr [JObj [(''slug'', JStr (fc_url call))]])]) \<rparr>"

definition directive_cms :: "request_cache option \<Rightarrow> next_config option \<Rightarrow> cms" where
  "directive_cms c n call =
     (if fo_cache (fc_options call) = c \<and> fo_next (fc_options call) = n
      then Inr \<lparr> cr_ok = True, cr_statusText = ''OK'',
                 cr_json = Inr (JObj [(''data'', JArr [hello_world_post])]) \<rparr>
      else Inl (ErrorObj ''unexpected request options''))"

definition two_posts_cms :: cms where
  "two_posts_cms call =
     Inr \<lparr> cr_ok = True, cr_statusText = ''OK'',
           cr_json = Inr (JObj [(''data'', JArr [JObj [(''slug'', JStr ''b'')],
                                                 JObj [(''slug'', JStr ''a'')]])]) \<rparr>"

definition ragged_cms :: cms where
  "ragged_cms call =
     Inr \<lparr> cr_ok = True, cr_statusText = ''OK'',
           cr_json = Inr (JObj [(''data'', JArr [JObj [(''slug'', JStr ''b'')],
                                                 JObj [(''title'', JStr ''x'')],
                                                 JNum False ''7'',
                                                 JObj [(''slug'', JStr ''a'')]])]) \<rparr>"

text \<open>A probe of a page whose headers arrive and whose body cannot be read.\<close>

definition broken_body_env :: "(nat \<Rightarrow> int) \<Rightarrow> metrics_env" where
  "broken_body_env clock =
     \<lparr> VERCEL_URL = None,
       page_fetch = (\<lambda>target. Inr \<lparr> pr_status = 200, pr_statusText = ''OK'', pr_headers = [],
                                    pr_text = Inl (ErrorObj ''terminated'') \<rparr>),
       date_now = clock,
       iso_now = ''2025-01-01T00:00:00.000Z'' \<rparr>"

text \<open>A platform whose \<open>revalidatePath\<close> returns for every path.\<close>

definition accepting_platform :: revalidate_env where
  "accepting_platform =
     \<lparr> revalidatePath = (\<lambda>path. None), rv_now = ''2025-01-01T00:00:00.000Z'' \<rparr>"


section \<open>Properties of the Directus helper\<close>

lemma map_slug_reads:
  "map (\<lambda>p. js_get p ''slug'' :: jsval thrown + jsval) ps = map Inr ss \<Longrightarrow> map_slug ps = Inr ss"
  by (induction ps arbitrary: ss) auto

lemma map_slug_objects:
  "map (\<lambda>e. map_of e ''slug'') es = map Some ss \<Longrightarrow> map_slug (map JObj es) = Inr ss"
  by (induction es arbitrary: ss) auto

lemma map_slug_null:
  "JNull \<in> set ps \<or> JUndefined \<in> set ps \<Longrightarrow> \<exists>e. map_slug ps = Inl e"
  by (induction ps) (auto split: sum.splits)

lemma opt_map_slug_or_empty_not_array:
  "\<forall>posts. d \<noteq> JArr posts \<Longrightarrow>
     opt_map_slug_or_empty d = Inr [] \<or> (\<exists>e. opt_map_slug_or_empty d = Inl e)"
  by (cases d) simp_all

text \<open>
  Claim C3. \<open>getPost\<close> never throws. When the CMS answers with success and its \<open>data\<close>
  array starts with an item, \<open>getPost\<close> returns that item; when the array is empty, when
  the status is not a success, or when \<open>fetch\<close> rejects, it returns \<open>null\<close>.
\<close>

theorem getPost_item_or_null:
  "(\<exists>v. getPost cfg fetch slug cacheOptions = Inr v)
   \<and> (fetch (getPost_call cfg slug cacheOptions) = Inr response \<and> cr_ok response
        \<and> cr_json response = Inr (JObj kvs)
        \<and> map_of kvs ''data'' = Some (JArr (JObj post # rest))
        \<longrightarrow> getPost cfg fetch slug cacheOptions = Inr (JObj post))
   \<and> (fetch (getPost_call cfg slug cacheOptions) = Inr response \<and> cr_ok response
        \<and> cr_json response = Inr (JObj kvs) \<and> map_of kvs ''data'' = Some (JArr [])
        \<longrightarrow> getPost cfg fetch slug cacheOptions = Inr JNull)
   \<and> (fetch (getPost_call cfg slug cacheOptions) = Inr response \<and> \<not> cr_ok response
        \<longrightarrow> getPost cfg fetch slug cacheOptions = Inr JNull)
   \<and> (fetch (getPost_call cfg slug cacheOptions) = Inl e
        \<longrightarrow> getPost cfg fetch slug cacheOptions = Inr JNull)"
  by (simp add: getPost_def getPost_try_def split: sum.splits)

theorem getPost_item_or_null_witness:
  "getPost demo_config demo_cms ''hello-world'' (Some (CacheString NoStore)) = Inr hello_world_post
   \<and> getPost demo_config demo_cms ''missing'' (Some (CacheString NoStore)) = Inr JNull
   \<and> getPost demo_config (\<lambda>call. Inl (ErrorObj ''fetch failed'')) ''hello-world'' None = Inr JNull"
  using getPost_item_or_null [where cfg = demo_config and fetch = demo_cms
      and slug = "''hello-world''" and cacheOptions = "Some (CacheString NoStore)"
      and response = "\<lparr> cr_ok = True, cr_statusText = ''OK'',
                         cr_json = Inr (JObj [(''data'', JArr [hello_world_post])]) \<rparr>"
      and kvs = "[(''data'', JArr [hello_world_post])]"
      and post = "[(''slug'', JStr ''hello-world''), (''title'', JStr ''Hello''),
                   (''content'', JStr ''<p>Hi</p>'')]"
      and rest = "[]"]
    getPost_item_or_null [where cfg = demo_config and fetch = demo_cms
      and slug = "''missing''" and cacheOptions = "Some (CacheString NoStore)"
      and response = "\<lparr> cr_ok = True, cr_statusText = ''OK'',
                         cr_json = Inr (JObj [(''data'', JArr [])]) \<rparr>"
      and kvs = "[(''data'', JArr [])]"]
    getPost_item_or_null [where cfg = demo_config and fetch = "\<lambda>call. Inl (ErrorObj ''fetch failed'')"
      and slug = "''hello-world''" and cacheOptions = None and e = "ErrorObj ''fetch failed''"]
  by (simp add: demo_cms_def demo_config_def hello_world_post_def getPost_call_def DIRECTUS_URL_def)

text \<open>
  Claim C6. \<open>getPost\<close> calls \<open>fetch\<close> with options that carry the caller's directive as
  it is. With a cache-mode string the request has that string as its \<open>cache\<close> entry and
  no \<open>next\<close> entry; with an object it has the object's \<open>next\<close> entry as its \<open>next\<close>
  entry and no \<open>cache\<close> entry. What \<open>getPost\<close> returns is decided by the answer
  \<open>fetch\<close> gives to this very request: an item in that answer is returned, and a CMS
  that answers only the request carrying the directive is answered.
\<close>

theorem getPost_forwards_cache_options:
  "fo_cache (fc_options (getPost_call cfg slug (Some (CacheString c)))) = Some c
   \<and> fo_next (fc_options (getPost_call cfg slug (Some (CacheString c)))) = None
   \<and> fo_next (fc_options (getPost_call cfg slug (Some (CacheObject n)))) = n
   \<and> fo_cache (fc_options (getPost_call cfg slug (Some (CacheObject n)))) = None
   \<and> getPost cfg fetch slug cacheOptions =
       (case fetch (getPost_call cfg slug cacheOptions) of
          Inl e \<Rightarrow> Inr JNull
        | Inr response \<Rightarrow> getPost cfg (\<lambda>call. Inr response) slug cacheOptions)
   \<and> (fetch \<lparr> fc_url = DIRECTUS_URL cfg @ ''/items/blogs?filter[slug][_eq]='' @ slug
                       @ ''&fields=slug,title,content,date_created,date_updated'',
               fc_options = \<lparr> fo_headers = directus_headers cfg, fo_cache = Some c,
                              fo_next = None \<rparr> \<rparr> = Inr response
        \<and> cr_ok response \<and> cr_json response = Inr (JObj kvs)
        \<and> map_of kvs ''data'' = Some (JArr (JObj post # rest))
        \<longrightarrow> getPost cfg fetch slug (Some (CacheString c)) = Inr (JObj post))
   \<and> (fetch \<lparr> fc_url = DIRECTUS_URL cfg @ ''/items/blogs?filter[slug][_eq]='' @ slug
                       @ ''&fields=slug,title,content,date_created,date_updated'',
               fc_options = \<lparr> fo_headers = directus_headers cfg, fo_cache = None,
                              fo_next = n \<rparr> \<rparr> = Inr response
        \<and> cr_ok response \<and> cr_json response = Inr (JObj kvs)
        \<and> map_of kvs ''data'' = Some (JArr (JObj post # rest))
        \<longrightarrow> getPost cfg fetch slug (Some (CacheObject n)) = Inr (JObj post))
   \<and> getPost cfg (directive_cms (Some c) None) slug (Some (CacheString c)) = Inr hello_world_post
   \<and> getPost cfg (directive_cms None n) slug (Some (CacheObject n)) = Inr hello_world_post
   \<and> (c' \<noteq> c
        \<longrightarrow> getPost cfg (directive_cms (Some c') None) slug (Some (CacheString c)) = Inr JNull)
   \<and> (n' \<noteq> n
        \<longrightarrow> getPost cfg (directive_cms None n') slug (Some (CacheObject n)) = Inr JNull)"
proof (intro conjI impI)
  show "fo_cache (fc_options (getPost_call cfg slug (Some (CacheString c)))) = Some c"
    by (simp add: getPost_call_def getPost_options_def)
  show "fo_next (fc_options (getPost_call cfg slug (Some (CacheString c)))) = None"
    by (simp add: getPost_call_def getPost_options_def)
  show "fo_next (fc_options (getPost_call cfg slug (Some (CacheObject n)))) = n"
    by (cases n) (simp_all add: getPost_call_def getPost_options_def)
  show "fo_cache (fc_options (getPost_call cfg slug (Some (CacheObject n)))) = None"
    by (cases n) (simp_all add: getPost_call_def getPost_options_def)
  show "getPost cfg fetch slug cacheOptions =
       (case fetch (getPost_call cfg slug cacheOptions) of
          Inl e \<Rightarrow> Inr JNull
        | Inr response \<Rightarrow> getPost cfg (\<lambda>call. Inr response) slug cacheOptions)"
    by (simp add: getPost_def getPost_try_def split: sum.splits)
  have string_call: "getPost_call cfg slug (Some (CacheString c)) =
      \<lparr> fc_url = DIRECTUS_URL cfg @ ''/items/blogs?filter[slug][_eq]='' @ slug
                   @ ''&fields=slug,title,content,date_created,date_updated'',
        fc_options = \<lparr> fo_headers = directus_headers cfg, fo_cache = Some c,
                       fo_next = None \<rparr> \<rparr>" for c
    by (simp add: getPost_call_def getPost_options_def)
  have object_call: "getPost_call cfg slug (Some (CacheObject n)) =
      \<lparr> fc_url = DIRECTUS_URL cfg @ ''/items/blogs?filter[slug][_eq]='' @ slug
                   @ ''&fields=slug,title,content,date_created,date_updated'',
        fc_options = \<lparr> fo_headers = directus_headers cfg, fo_cache = None,
                       fo_next = n \<rparr> \<rparr>" for n
    by (cases n) (simp_all add: getPost_call_def getPost_options_def)
  {
    assume "fetch \<lparr> fc_url = DIRECTUS_URL cfg @ ''/items/blogs?filter[slug][_eq]='' @ slug
                       @ ''&fields=slug,title,content,date_created,date_updated'',
               fc_options = \<lparr> fo_headers = directus_headers cfg, fo_cache = Some c,
                              fo_next = None \<rparr> \<rparr> = Inr response
        \<and> cr_ok response \<and> cr_json response = Inr (JObj kvs)
        \<and> map_of kvs ''data'' = Some (JArr (JObj post # rest))"
    then show "getPost cfg fetch slug (Some (CacheString c)) = Inr (JObj post)"
      by (simp add: getPost_def getPost_try_def string_call)
  }
  {
    assume "fetch \<lparr> fc_url = DIRECTUS_URL cfg @ ''/items/blogs?filter[slug][_eq]='' @ slug
                       @ ''&fields=slug,title,content,date_created,date_updated'',
               fc_options = \<lparr> fo_headers = directus_headers cfg, fo_cache = None,
                              fo_next = n \<rparr> \<rparr> = Inr response
        \<and> cr_ok response \<and> cr_json response = Inr (JObj kvs)
        \<and> map_of kvs ''data'' = Some (JArr (JObj post # rest))"
    then show "getPost cfg fetch slug (Some (CacheObject n)) = Inr (JObj post)"
      by (simp add: getPost_def getPost_try_def object_call)
  }
  show "getPost cfg (directive_cms (Some c) None) slug (Some (CacheString c)) = Inr hello_world_post"
    by (simp add: getPost_def getPost_try_def string_call directive_cms_def hello_world_post_def)
  show "getPost cfg (directive_cms None n) slug (Some (CacheObject n)) = Inr hello_world_post"
    by (simp add: getPost_def getPost_try_def object_call directive_cms_def hello_world_post_def)
  {
    assume "c' \<noteq> c"
    then show "getPost cfg (directive_cms (Some c') None) slug (Some (CacheString c)) = Inr JNull"
      by (simp add: getPost_def getPost_try_def string_call directive_cms_def)
  }
  {
    assume "n' \<noteq> n"
    then show "getPost cfg (directive_cms None n') slug (Some (CacheObject n)) = Inr JNull"
      by (simp add: getPost_def getPost_try_def object_call directive_cms_def)
  }
qed

theorem getPost_forwards_cache_options_witness:
  "getPost demo_config (directive_cms (Some ForceCache) None) ''hello-world''
       (Some (CacheString ForceCache)) = Inr hello_world_post
   \<and> getPost demo_config (directive_cms (Some NoStore) None) ''hello-world''
       (Some (CacheString ForceCache)) = Inr JNull
   \<and> getPost demo_config
       (directive_cms None (Some \<lparr> revalidate = Some (RevalidateSeconds 60),
                                   tags = Some [''post-hello-world''] \<rparr>))
       ''hello-world''
       (Some (CacheObject (Some \<lparr> revalidate = Some (RevalidateSeconds 60),
                                   tags = Some [''post-hello-world''] \<rparr>))) = Inr hello_world_post
   \<and> getPost demo_config
       (directive_cms None (Some \<lparr> revalidate = Some RevalidateFalse,
                                   tags = Some [''post-hello-world''] \<rparr>))
       ''hello-world''
       (Some (CacheObject (Some \<lparr> revalidate = Some (RevalidateSeconds 60),
                                   tags = Some [''post-hello-world''] \<rparr>))) = Inr JNull"
  using getPost_forwards_cache_options [where cfg = demo_config and slug = "''hello-world''"
      and c = ForceCache and c' = NoStore
      and n = "Some \<lparr> revalidate = Some (RevalidateSeconds 60),
                       tags = Some [''post-hello-world''] \<rparr>"
      and n' = "Some \<lparr> revalidate = Some RevalidateFalse,
                        tags = Some [''post-hello-world''] \<rparr>"
      and fetch = "directive_cms (Some ForceCache) None"
      and cacheOptions = "Some (CacheString ForceCache)"
      and response = "\<lparr> cr_ok = True, cr_statusText = ''OK'',
                         cr_json = Inr (JObj [(''data'', JArr [hello_world_post])]) \<rparr>"
      and kvs = "[(''data'', JArr [hello_world_post])]"
      and post = "[(''slug'', JStr ''hello-world''), (''title'', JStr ''Hello''),
                   (''content'', JStr ''<p>Hi</p>'')]"
      and rest = "[]"]
  by (simp add: directive_cms_def getPost_call_def getPost_options_def getPost_def getPost_try_def
      hello_world_post_def)

text \<open>
  Claim C10. The URL \<open>getPost\<close> sends to the CMS is the CMS base URL, the literal
  \<open>/items/blogs?filter[slug][_eq]=\<close>, the slug character for character, and the literal
  \<open>&fields=slug,title,content,date_created,date_updated\<close>: what \<open>getPost\<close> returns is
  decided by the answer \<open>fetch\<close> gives at this URL, and a CMS that echoes the URL it was
  asked for shows this URL. A slug holding \<open>&\<close> and \<open>=\<close> adds parameters of its own to
  the query.
\<close>

theorem getPost_url_verbatim:
  "fc_url (getPost_call cfg slug cacheOptions) =
     DIRECTUS_URL cfg @ ''/items/blogs?filter[slug][_eq]='' @ slug
       @ ''&fields=slug,title,content,date_created,date_updated''
   \<and> fc_url (getPost_call demo_config ''x&limit=-1&fields=*'' cacheOptions) =
       ''https://api.microheal.in/items/blogs?filter[slug][_eq]=x&limit=-1&fields=*&fields=slug,title,content,date_created,date_updated''
   \<and> (fetch \<lparr> fc_url = DIRECTUS_URL cfg @ ''/items/blogs?filter[slug][_eq]='' @ slug
                       @ ''&fields=slug,title,content,date_created,date_updated'',
               fc_options = getPost_options cfg cacheOptions \<rparr> = Inr response
        \<and> cr_ok response \<and> cr_json response = Inr (JObj kvs)
        \<and> map_of kvs ''data'' = Some (JArr (JObj post # rest))
        \<longrightarrow> getPost cfg fetch slug cacheOptions = Inr (JObj post))
   \<and> getPost cfg echo_cms slug cacheOptions =
       Inr (JObj [(''slug'', JStr (DIRECTUS_URL cfg @ ''/items/blogs?filter[slug][_eq]='' @ slug
                     @ ''&fields=slug,title,content,date_created,date_updated''))])
   \<and> getPost demo_config echo_cms ''x&limit=-1&fields=*'' cacheOptions =
       Inr (JObj [(''slug'', JStr ''https://api.microheal.in/items/blogs?filter[slug][_eq]=x&limit=-1&fields=*&fields=slug,title,content,date_created,date_updated'')])"
  by (simp add: getPost_def getPost_try_def getPost_call_def echo_cms_def DIRECTUS_URL_def
      demo_config_def)

theorem getPost_url_verbatim_witness:
  "getPost demo_config echo_cms ''a=b&c'' None =
     Inr (JObj [(''slug'', JStr ''https://api.microheal.in/items/blogs?filter[slug][_eq]=a=b&c&fields=slug,title,content,date_created,date_updated'')])
   \<and> getPost demo_config demo_cms ''hello-world'' None = Inr hello_world_post"
  using getPost_url_verbatim [where cfg = demo_config and slug = "''a=b&c''"
      and cacheOptions = None]
    getPost_url_verbatim [where cfg = demo_config and slug = "''hello-world''"
      and cacheOptions = None and fetch = demo_cms
      and response = "\<lparr> cr_ok = True, cr_statusText = ''OK'',
                         cr_json = Inr (JObj [(''data'', JArr [hello_world_post])]) \<rparr>"
      and kvs = "[(''data'', JArr [hello_world_post])]"
      and post = "[(''slug'', JStr ''hello-world''), (''title'', JStr ''Hello''),
                   (''content'', JStr ''<p>Hi</p>'')]"
      and rest = "[]"]
  by (simp add: DIRECTUS_URL_def demo_config_def demo_cms_def hello_world_post_def)

text \<open>
  Claim C7, as amended. \<open>getAllSlugs\<close> never throws. When the CMS answers with success
  and a \<open>data\<close> array, it returns what the \<open>slug\<close> entry of each element reads as, in
  the array's order: the slugs themselves when every element is an item with a string
  slug, and \<open>undefined\<close> in the place of an element that has no slug. It returns the
  empty array when the status is not a success, when \<open>fetch\<close> rejects, when the body is
  not JSON, when the JSON holds no \<open>data\<close> array, and when the array holds \<open>null\<close>.
\<close>

theorem getAllSlugs_ordered_or_empty:
  "(\<exists>slugs. getAllSlugs cfg fetch = Inr slugs)
   \<and> (fetch (getAllSlugs_call cfg) = Inr response \<and> cr_ok response
        \<and> cr_json response = Inr (JObj kvs) \<and> map_of kvs ''data'' = Some (JArr (map JObj posts))
        \<and> map (\<lambda>post. map_of post ''slug'') posts = map (\<lambda>s. Some (JStr s)) slugs
        \<longrightarrow> getAllSlugs cfg fetch = Inr (map JStr slugs))
   \<and> (fetch (getAllSlugs_call cfg) = Inr response \<and> \<not> cr_ok response
        \<longrightarrow> getAllSlugs cfg fetch = Inr [])
   \<and> (fetch (getAllSlugs_call cfg) = Inl e \<longrightarrow> getAllSlugs cfg fetch = Inr [])
   \<and> (fetch (getAllSlugs_call cfg) = Inr response \<and> cr_json response = Inl e'
        \<longrightarrow> getAllSlugs cfg fetch = Inr [])
   \<and> (fetch (getAllSlugs_call cfg) = Inr response \<and> cr_json response = Inr v
        \<and> (\<forall>ps. js_get v ''data'' \<noteq> (Inr (JArr ps) :: jsval thrown + jsval))
        \<longrightarrow> getAllSlugs cfg fetch = Inr [])
   \<and> (fetch (getAllSlugs_call cfg) = Inr response \<and> cr_ok response
        \<and> cr_json response = Inr v
        \<and> js_get v ''data'' = (Inr (JArr elems) :: jsval thrown + jsval)
        \<and> map (\<lambda>p. js_get p ''slug'' :: jsval thrown + jsval) elems = map Inr entries
        \<longrightarrow> getAllSlugs cfg fetch = Inr entries)
   \<and> (fetch (getAllSlugs_call cfg) = Inr response \<and> cr_json response = Inr v
        \<and> js_get v ''data'' = (Inr (JArr elems) :: jsval thrown + jsval)
        \<and> JNull \<in> set elems
        \<longrightarrow> getAllSlugs cfg fetch = Inr [])"
proof (intro conjI impI)
  show "\<exists>slugs. getAllSlugs cfg fetch = Inr slugs"
    by (simp add: getAllSlugs_def split: sum.splits)
next
  assume a: "fetch (getAllSlugs_call cfg) = Inr response \<and> cr_ok response
         \<and> cr_json response = Inr (JObj kvs) \<and> map_of kvs ''data'' = Some (JArr (map JObj posts))
         \<and> map (\<lambda>post. map_of post ''slug'') posts = map (\<lambda>s. Some (JStr s)) slugs"
  then have "map (\<lambda>post. map_of post ''slug'') posts = map Some (map JStr slugs)"
    by (simp add: comp_def)
  then have "map_slug (map JObj posts) = Inr (map JStr slugs)"
    by (rule map_slug_objects)
  with a show "getAllSlugs cfg fetch = Inr (map JStr slugs)"
    by (simp add: getAllSlugs_def getAllSlugs_try_def)
next
  assume "fetch (getAllSlugs_call cfg) = Inr response \<and> \<not> cr_ok response"
  then show "getAllSlugs cfg fetch = Inr []"
    by (simp add: getAllSlugs_def getAllSlugs_try_def)
next
  assume "fetch (getAllSlugs_call cfg) = Inl e"
  then show "getAllSlugs cfg fetch = Inr []"
    by (simp add: getAllSlugs_def getAllSlugs_try_def)
next
  assume "fetch (getAllSlugs_call cfg) = Inr response \<and> cr_json response = Inl e'"
  then show "getAllSlugs cfg fetch = Inr []"
    by (simp add: getAllSlugs_def getAllSlugs_try_def)
next
  assume a: "fetch (getAllSlugs_call cfg) = Inr response \<and> cr_json response = Inr v
         \<and> (\<forall>ps. js_get v ''data'' \<noteq> (Inr (JArr ps) :: jsval thrown + jsval))"
  show "getAllSlugs cfg fetch = Inr []"
  proof (cases "js_get v ''data'' :: jsval thrown + jsval")
    case (Inl x)
    with a show ?thesis
      by (simp add: getAllSlugs_def getAllSlugs_try_def)
  next
    case (Inr d)
    with a have "\<forall>ps. d \<noteq> JArr ps" by simp
    then have "opt_map_slug_or_empty d = Inr [] \<or> (\<exists>x. opt_map_slug_or_empty d = Inl x)"
      by (rule opt_map_slug_or_empty_not_array)
    with a Inr show ?thesis
      by (auto simp: getAllSlugs_def getAllSlugs_try_def)
  qed
next
  assume a: "fetch (getAllSlugs_call cfg) = Inr response \<and> cr_ok response
        \<and> cr_json response = Inr v
        \<and> js_get v ''data'' = (Inr (JArr elems) :: jsval thrown + jsval)
        \<and> map (\<lambda>p. js_get p ''slug'' :: jsval thrown + jsval) elems = map Inr entries"
  then have "map_slug elems = Inr entries"
    by (simp add: map_slug_reads)
  with a show "getAllSlugs cfg fetch = Inr entries"
    by (simp add: getAllSlugs_def getAllSlugs_try_def)
next
  assume a: "fetch (getAllSlugs_call cfg) = Inr response \<and> cr_json response = Inr v
        \<and> js_get v ''data'' = (Inr (JArr elems) :: jsval thrown + jsval)
        \<and> JNull \<in> set elems"
  then obtain x where "map_slug elems = Inl x"
    using map_slug_null [of elems] by blast
  with a show "getAllSlugs cfg fetch = Inr []"
    by (simp add: getAllSlugs_def getAllSlugs_try_def)
qed

theorem getAllSlugs_ordered_or_empty_witness:
  "getAllSlugs demo_config two_posts_cms = Inr [JStr ''b'', JStr ''a'']
   \<and> getAllSlugs demo_config ragged_cms = Inr [JStr ''b'', JUndefined, JUndefined, JStr ''a'']
   \<and> getAllSlugs demo_config (\<lambda>call. Inl (ErrorObj ''fetch failed'')) = Inr []
   \<and> getAllSlugs demo_config
        (\<lambda>call. Inr \<lparr> cr_ok = True, cr_statusText = ''OK'',
                       cr_json = Inr (JObj [(''data'', JArr [JObj [(''slug'', JStr ''b'')], JNull])]) \<rparr>)
      = Inr []"
  using getAllSlugs_ordered_or_empty [where cfg = demo_config and fetch = two_posts_cms
      and response = "\<lparr> cr_ok = True, cr_statusText = ''OK'',
           cr_json = Inr (JObj [(''data'', JArr [JObj [(''slug'', JStr ''b'')],
                                                 JObj [(''slug'', JStr ''a'')]])]) \<rparr>"
      and kvs = "[(''data'', JArr [JObj [(''slug'', JStr ''b'')], JObj [(''slug'', JStr ''a'')]])]"
      and posts = "[[(''slug'', JStr ''b'')], [(''slug'', JStr ''a'')]]"
      and slugs = "[''b'', ''a'']"]
    getAllSlugs_ordered_or_empty [where cfg = demo_config and fetch = ragged_cms
      and response = "\<lparr> cr_ok = True, cr_statusText = ''OK'',
           cr_json = Inr (JObj [(''data'', JArr [JObj [(''slug'', JStr ''b'')],
                                                 JObj [(''title'', JStr ''x'')],
                                                 JNum False ''7'',
                                                 JObj [(''slug'', JStr ''a'')]])]) \<rparr>"
      and v = "JObj [(''data'', JArr [JObj [(''slug'', JStr ''b'')],
                                      JObj [(''title'', JStr ''x'')],
                                      JNum False ''7'',
                                      JObj [(''slug'', JStr ''a'')]])]"
      and elems = "[JObj [(''slug'', JStr ''b'')], JObj [(''title'', JStr ''x'')],
                    JNum False ''7'', JObj [(''slug'', JStr ''a'')]]"
      and entries = "[JStr ''b'', JUndefined, JUndefined, JStr ''a'']"]
    getAllSlugs_ordered_or_empty [where cfg = demo_config
      and fetch = "\<lambda>call. Inl (ErrorObj ''fetch failed'')" and e = "ErrorObj ''fetch failed''"]
    getAllSlugs_ordered_or_empty [where cfg = demo_config
      and fetch = "\<lambda>call. Inr \<lparr> cr_ok = True, cr_statusText = ''OK'',
                       cr_json = Inr (JObj [(''data'', JArr [JObj [(''slug'', JStr ''b'')], JNull])]) \<rparr>"
      and response = "\<lparr> cr_ok = True, cr_statusText = ''OK'',
                       cr_json = Inr (JObj [(''data'', JArr [JObj [(''slug'', JStr ''b'')], JNull])]) \<rparr>"
      and v = "JObj [(''data'', JArr [JObj [(''slug'', JStr ''b'')], JNull])]"
      and elems = "[JObj [(''slug'', JStr ''b'')], JNull]"]
  by (simp add: two_posts_cms_def ragged_cms_def)

text \<open>
  The claim as stated fails on a successful answer whose \<open>data\<close> array holds elements
  without a slug: for the four elements \<open>{slug: 'b'}\<close>, \<open>{title: 'x'}\<close>, \<open>7\<close>,
  \<open>{slug: 'a'}\<close> the result is neither empty nor a sequence of identifier strings.
\<close>

theorem getAllSlugs_undefined_entries_counterexample:
  "getAllSlugs demo_config ragged_cms = Inr [JStr ''b'', JUndefined, JUndefined, JStr ''a'']"
  by (simp add: getAllSlugs_def getAllSlugs_try_def ragged_cms_def)

section \<open>Properties of the metrics helper\<close>

subsection \<open>The version that returns the failure\<close>

lemma measurePageMetrics_never_throws: "\<exists>r. measurePageMetrics env u = Inr r"
  by (simp add: measurePageMetrics_def Let_def split: sum.splits)

lemma measurePageMetrics_returns_failure:
  "fetch_url env u = Inl e \<or> (fetch_url env u = Inr target \<and> page_fetch env target = Inl e)
   \<Longrightarrow> measurePageMetrics env u =
         Inr \<lparr> url = u, status = 0, statusText = ''Fetch Failed'',
               ttfb = date_now env 1 - date_now env 0,
               totalTime = date_now env 1 - date_now env 0,
               htmlSize = 0, htmlSizeKB = ''0.00'', headers = Map.empty, htmlPreview = [],
               timestamp = iso_now env, error = Some (error_message e) \<rparr>"
  by (auto simp: measurePageMetrics_def fetch_failed_def Let_def)

lemma measurePageMetrics_returns_text_failure:
  "fetch_url env u = Inr target \<Longrightarrow> page_fetch env target = Inr response
   \<Longrightarrow> pr_text response = Inl e
   \<Longrightarrow> measurePageMetrics env u =
         Inr \<lparr> url = u, status = 0, statusText = ''Fetch Failed'',
               ttfb = (if date_now env 1 - date_now env 0 \<noteq> 0
                       then date_now env 1 - date_now env 0
                       else date_now env 2 - date_now env 0),
               totalTime = date_now env 2 - date_now env 0,
               htmlSize = 0, htmlSizeKB = ''0.00'', headers = Map.empty, htmlPreview = [],
               timestamp = iso_now env, error = Some (error_message e) \<rparr>"
  by (simp add: measurePageMetrics_def fetch_failed_def Let_def)

lemma error_message_empty: "error_message e = [] \<longleftrightarrow> e = ErrorObj []"
  by (cases e) simp_all

subsection \<open>The version that throws the failure\<close>

lemma measurePageMetrics_lib_throws:
  "to_string u = Inl e \<or> (to_string u = Inr target \<and> page_fetch env target = Inl e) \<Longrightarrow>
     measurePageMetrics_lib env u =
       Inl (Thrown \<lparr> mf_url = u, mf_status = 0, mf_statusText = ''Fetch Failed'',
                     mf_ttfb = date_now env 1 - date_now env 0,
                     mf_totalTime = date_now env 1 - date_now env 0,
                     mf_error = error_message e, mf_timestamp = iso_now env \<rparr>)"
  by (auto simp: measurePageMetrics_lib_def fetch_failed_lib_def Let_def)

lemma measurePageMetrics_lib_throws_text_failure:
  "to_string u = Inr target \<Longrightarrow> page_fetch env target = Inr response
   \<Longrightarrow> pr_text response = Inl e
   \<Longrightarrow> measurePageMetrics_lib env u =
       Inl (Thrown \<lparr> mf_url = u, mf_status = 0, mf_statusText = ''Fetch Failed'',
                     mf_ttfb = (if date_now env 1 - date_now env 0 \<noteq> 0
                                then date_now env 1 - date_now env 0
                                else date_now env 2 - date_now env 0),
                     mf_totalTime = date_now env 2 - date_now env 0,
                     mf_error = error_message e, mf_timestamp = iso_now env \<rparr>)"
  by (simp add: measurePageMetrics_lib_def fetch_failed_lib_def Let_def)

text \<open>
  Claim C1. On a failure \<open>measurePageMetrics\<close> should return a result with status 0,
  status text \<open>Fetch Failed\<close>, the elapsed time and the error message. At an
  unreachable URL the version of src/lib/metrics.ts throws an object with these entries
  instead of returning it; the version of src/unnamed/part_002 returns the result.
\<close>

theorem measurePageMetrics_lib_throws_failure:
  "measurePageMetrics_lib unreachable_env (JStr ''http://unreachable.invalid/'') =
     Inl (Thrown \<lparr> mf_url = JStr ''http://unreachable.invalid/'', mf_status = 0,
                   mf_statusText = ''Fetch Failed'', mf_ttfb = 5, mf_totalTime = 5,
                   mf_error = ''fetch failed'', mf_timestamp = ''2025-01-01T00:00:00.000Z'' \<rparr>)
   \<and> measurePageMetrics unreachable_env (JStr ''http://unreachable.invalid/'') =
     Inr \<lparr> url = JStr ''http://unreachable.invalid/'', status = 0,
           statusText = ''Fetch Failed'', ttfb = 5, totalTime = 5,
           htmlSize = 0, htmlSizeKB = ''0.00'', headers = Map.empty, htmlPreview = [],
           timestamp = ''2025-01-01T00:00:00.000Z'', error = Some ''fetch failed'' \<rparr>"
  by (simp add: measurePageMetrics_lib_def measurePageMetrics_def fetch_url_def
      fetch_failed_lib_def fetch_failed_def unreachable_env_def Let_def)

subsection \<open>Times and size\<close>

lemma fetch_failed_bounds:
  "ttfbTime \<le> now - startTime \<Longrightarrow>
     ttfb (fetch_failed env u startTime ttfbTime now e)
       \<le> totalTime (fetch_failed env u startTime ttfbTime now e)"
  by (simp add: fetch_failed_def Let_def)

lemma fetch_failed_bounds0:
  "ttfb (fetch_failed env u startTime 0 now e) = totalTime (fetch_failed env u startTime 0 now e)"
  by (simp add: fetch_failed_def Let_def)

lemma fetch_failed_htmlSize: "htmlSize (fetch_failed env u startTime ttfbTime now e) = 0"
  by (simp add: fetch_failed_def Let_def)

lemma fetch_failed_lib_bounds:
  "ttfbTime \<le> now - startTime \<Longrightarrow>
     mf_ttfb (fetch_failed_lib env u startTime ttfbTime now e)
       \<le> mf_totalTime (fetch_failed_lib env u startTime ttfbTime now e)"
  by (simp add: fetch_failed_lib_def Let_def)

lemma fetch_failed_lib_bounds0:
  "mf_ttfb (fetch_failed_lib env u startTime 0 now e)
     = mf_totalTime (fetch_failed_lib env u startTime 0 now e)"
  by (simp add: fetch_failed_lib_def Let_def)

lemma measurePageMetrics_bounds:
  assumes res: "measurePageMetrics env u = Inr r"
  shows "0 \<le> htmlSize r \<and> (date_now env 1 \<le> date_now env 2 \<longrightarrow> ttfb r \<le> totalTime r)"
proof (cases "fetch_url env u")
  case (Inl e)
  with res have "r = fetch_failed env u (date_now env 0) 0 (date_now env 1) e"
    by (simp add: measurePageMetrics_def Let_def)
  then show ?thesis by (simp add: fetch_failed_bounds0 fetch_failed_htmlSize)
next
  case target: (Inr target)
  show ?thesis
  proof (cases "page_fetch env target")
    case (Inl e)
    with res target have "r = fetch_failed env u (date_now env 0) 0 (date_now env 1) e"
      by (simp add: measurePageMetrics_def Let_def)
    then show ?thesis by (simp add: fetch_failed_bounds0 fetch_failed_htmlSize)
  next
    case response: (Inr response)
    show ?thesis
    proof (cases "pr_text response")
      case (Inl e)
      with res target response
      have r: "r = fetch_failed env u (date_now env 0) (date_now env 1 - date_now env 0)
                  (date_now env 2) e"
        by (simp add: measurePageMetrics_def Let_def)
      have "ttfb r \<le> totalTime r" if "date_now env 1 \<le> date_now env 2"
      proof -
        from that have "date_now env 1 - date_now env 0 \<le> date_now env 2 - date_now env 0"
          by simp
        then show ?thesis unfolding r by (rule fetch_failed_bounds)
      qed
      with r show ?thesis by (simp add: fetch_failed_htmlSize)
    next
      case (Inr html)
      with res target response
      have "ttfb r = date_now env 1 - date_now env 0"
        and "totalTime r = date_now env 2 - date_now env 0"
        and "htmlSize r = int (blob_size html)"
        by (auto simp: measurePageMetrics_def Let_def)
      then show ?thesis by simp
    qed
  qed
qed

lemma measurePageMetrics_lib_bounds:
  assumes res: "measurePageMetrics_lib env u = Inr r"
  shows "0 \<le> htmlSize r \<and> (date_now env 1 \<le> date_now env 2 \<longrightarrow> ttfb r \<le> totalTime r)"
proof (cases "to_string u")
  case (Inl e)
  with res show ?thesis by (simp add: measurePageMetrics_lib_def Let_def)
next
  case target: (Inr target)
  show ?thesis
  proof (cases "page_fetch env target")
    case (Inl e)
    with res target show ?thesis by (simp add: measurePageMetrics_lib_def Let_def)
  next
    case response: (Inr response)
    show ?thesis
    proof (cases "pr_text response")
      case (Inl e)
      with res target response show ?thesis by (simp add: measurePageMetrics_lib_def Let_def)
    next
      case (Inr html)
      with res target response
      have "ttfb r = date_now env 1 - date_now env 0"
        and "totalTime r = date_now env 2 - date_now env 0"
        and "htmlSize r = int (blob_size html)"
        by (auto simp: measurePageMetrics_lib_def Let_def)
      then show ?thesis by simp
    qed
  qed
qed

lemma measurePageMetrics_lib_failure_bounds:
  assumes res: "measurePageMetrics_lib env u = Inl (Thrown f)"
    and clock: "date_now env 1 \<le> date_now env 2"
  shows "mf_ttfb f \<le> mf_totalTime f"
proof (cases "to_string u")
  case (Inl e)
  with res have "f = fetch_failed_lib env u (date_now env 0) 0 (date_now env 1) e"
    by (simp add: measurePageMetrics_lib_def Let_def)
  then show ?thesis by (simp add: fetch_failed_lib_bounds0)
next
  case target: (Inr target)
  show ?thesis
  proof (cases "page_fetch env target")
    case (Inl e)
    with res target have "f = fetch_failed_lib env u (date_now env 0) 0 (date_now env 1) e"
      by (simp add: measurePageMetrics_lib_def Let_def)
    then show ?thesis by (simp add: fetch_failed_lib_bounds0)
  next
    case response: (Inr response)
    show ?thesis
    proof (cases "pr_text response")
      case (Inl e)
      with res target response
      have f: "f = fetch_failed_lib env u (date_now env 0) (date_now env 1 - date_now env 0)
                  (date_now env 2) e"
        by (simp add: measurePageMetrics_lib_def Let_def)
      from clock have "date_now env 1 - date_now env 0 \<le> date_now env 2 - date_now env 0"
        by simp
      then show ?thesis unfolding f by (rule fetch_failed_lib_bounds)
    next
      case (Inr html)
      with res target response show ?thesis by (simp add: measurePageMetrics_lib_def Let_def)
    qed
  qed
qed

text \<open>
  Claim C2, as amended. \<open>Date.now()\<close> reads the system clock, which can be set back.
  Every result either version returns, on the success path and on the failure path, has
  an \<open>htmlSize\<close> that is not negative. It has \<open>ttfb \<le> totalTime\<close> when the reading
  taken once the headers have arrived is not later than the next reading; when \<open>fetch\<close>
  was rejected, no such second reading is taken and \<open>ttfb = totalTime\<close>. The same two
  statements about the times hold of the failure object of the src/lib/metrics.ts
  version, which has no \<open>htmlSize\<close> entry.
\<close>

theorem ttfb_le_totalTime:
  "(measurePageMetrics env u = Inr r
      \<longrightarrow> 0 \<le> htmlSize r \<and> (date_now env 1 \<le> date_now env 2 \<longrightarrow> ttfb r \<le> totalTime r))
   \<and> (measurePageMetrics env u = Inr r
        \<and> (fetch_url env u = Inl e
             \<or> (fetch_url env u = Inr target \<and> page_fetch env target = Inl e))
      \<longrightarrow> ttfb r = totalTime r)
   \<and> (measurePageMetrics_lib env u = Inr r'
      \<longrightarrow> 0 \<le> htmlSize r' \<and> (date_now env 1 \<le> date_now env 2 \<longrightarrow> ttfb r' \<le> totalTime r'))
   \<and> (measurePageMetrics_lib env u = Inl (Thrown f)
      \<longrightarrow> (date_now env 1 \<le> date_now env 2 \<longrightarrow> mf_ttfb f \<le> mf_totalTime f))
   \<and> (measurePageMetrics_lib env u = Inl (Thrown f)
        \<and> (to_string u = Inl e
             \<or> (to_string u = Inr target' \<and> page_fetch env target' = Inl e))
      \<longrightarrow> mf_ttfb f = mf_totalTime f)"
proof (intro conjI impI)
  assume "measurePageMetrics env u = Inr r"
  then show "0 \<le> htmlSize r" by (simp add: measurePageMetrics_bounds)
next
  assume "measurePageMetrics env u = Inr r" and "date_now env 1 \<le> date_now env 2"
  then show "ttfb r \<le> totalTime r" by (simp add: measurePageMetrics_bounds)
next
  assume a: "measurePageMetrics env u = Inr r
        \<and> (fetch_url env u = Inl e
             \<or> (fetch_url env u = Inr target \<and> page_fetch env target = Inl e))"
  then have "measurePageMetrics env u =
         Inr \<lparr> url = u, status = 0, statusText = ''Fetch Failed'',
               ttfb = date_now env 1 - date_now env 0,
               totalTime = date_now env 1 - date_now env 0,
               htmlSize = 0, htmlSizeKB = ''0.00'', headers = Map.empty, htmlPreview = [],
               timestamp = iso_now env, error = Some (error_message e) \<rparr>"
    by (intro measurePageMetrics_returns_failure) blast
  with a show "ttfb r = totalTime r" by auto
next
  assume "measurePageMetrics_lib env u = Inr r'"
  then show "0 \<le> htmlSize r'" by (simp add: measurePageMetrics_lib_bounds)
next
  assume "measurePageMetrics_lib env u = Inr r'" and "date_now env 1 \<le> date_now env 2"
  then show "ttfb r' \<le> totalTime r'" by (simp add: measurePageMetrics_lib_bounds)
next
  assume "measurePageMetrics_lib env u = Inl (Thrown f)" and "date_now env 1 \<le> date_now env 2"
  then show "mf_ttfb f \<le> mf_totalTime f" by (rule measurePageMetrics_lib_failure_bounds)
next
  assume a: "measurePageMetrics_lib env u = Inl (Thrown f)
        \<and> (to_string u = Inl e
             \<or> (to_string u = Inr target' \<and> page_fetch env target' = Inl e))"
  then have "measurePageMetrics_lib env u =
       Inl (Thrown \<lparr> mf_url = u, mf_status = 0, mf_statusText = ''Fetch Failed'',
                     mf_ttfb = date_now env 1 - date_now env 0,
                     mf_totalTime = date_now env 1 - date_now env 0,
                     mf_error = error_message e, mf_timestamp = iso_now env \<rparr>)"
    by (intro measurePageMetrics_lib_throws) blast
  with a show "mf_ttfb f = mf_totalTime f" by auto
qed

theorem ttfb_le_totalTime_witness:
  "date_now (page_env [0x6F, 0x6B] steady_clock) 1 \<le> date_now (page_env [0x6F, 0x6B] steady_clock) 2
   \<and> measurePageMetrics (page_env [0x6F, 0x6B] steady_clock) (JStr ''http://example.com/'') =
       Inr \<lparr> url = JStr ''http://example.com/'', status = 200, statusText = ''OK'', ttfb = 5,
             totalTime = 12, htmlSize = 2, htmlSizeKB = ''0.00'', headers = Map.empty,
             htmlPreview = [0x6F, 0x6B], timestamp = ''2025-01-01T00:00:00.000Z'',
             error = None \<rparr>
   \<and> (5 :: int) \<le> 12 \<and> (0 :: int) \<le> 2
   \<and> measurePageMetrics (broken_body_env steady_clock) (JStr ''http://example.com/'') =
       Inr \<lparr> url = JStr ''http://example.com/'', status = 0, statusText = ''Fetch Failed'',
             ttfb = 5, totalTime = 12, htmlSize = 0, htmlSizeKB = ''0.00'', headers = Map.empty,
             htmlPreview = [], timestamp = ''2025-01-01T00:00:00.000Z'',
             error = Some ''terminated'' \<rparr>
   \<and> measurePageMetrics_lib (broken_body_env steady_clock) (JStr ''http://example.com/'') =
       Inl (Thrown \<lparr> mf_url = JStr ''http://example.com/'', mf_status = 0,
                     mf_statusText = ''Fetch Failed'', mf_ttfb = 5, mf_totalTime = 12,
                     mf_error = ''terminated'', mf_timestamp = ''2025-01-01T00:00:00.000Z'' \<rparr>)
   \<and> measurePageMetrics_lib unreachable_env (JStr ''http://unreachable.invalid/'') =
       Inl (Thrown \<lparr> mf_url = JStr ''http://unreachable.invalid/'', mf_status = 0,
                     mf_statusText = ''Fetch Failed'', mf_ttfb = 5, mf_totalTime = 5,
                     mf_error = ''fetch failed'', mf_timestamp = ''2025-01-01T00:00:00.000Z'' \<rparr>)"
proof -
  have h: "date_now (page_env [0x6F, 0x6B] steady_clock) 1
             \<le> date_now (page_env [0x6F, 0x6B] steady_clock) 2"
    by (simp add: page_env_def steady_clock_def)
  have r: "measurePageMetrics (page_env [0x6F, 0x6B] steady_clock) (JStr ''http://example.com/'') =
       Inr \<lparr> url = JStr ''http://example.com/'', status = 200, statusText = ''OK'', ttfb = 5,
             totalTime = 12, htmlSize = 2, htmlSizeKB = ''0.00'', headers = Map.empty,
             htmlPreview = [0x6F, 0x6B], timestamp = ''2025-01-01T00:00:00.000Z'',
             error = None \<rparr>"
    by (simp add: measurePageMetrics_def fetch_url_def page_env_def steady_clock_def Let_def
        is_high_surrogate_def unit_bytes_def size_kb_def digit_def collect_headers_def
        html_preview_def substring0_def trim_def is_ws_def)
  have b: "measurePageMetrics (broken_body_env steady_clock) (JStr ''http://example.com/'') =
       Inr \<lparr> url = JStr ''http://example.com/'', status = 0, statusText = ''Fetch Failed'',
             ttfb = 5, totalTime = 12, htmlSize = 0, htmlSizeKB = ''0.00'', headers = Map.empty,
             htmlPreview = [], timestamp = ''2025-01-01T00:00:00.000Z'',
             error = Some ''terminated'' \<rparr>"
    by (simp add: measurePageMetrics_def fetch_url_def broken_body_env_def steady_clock_def
        fetch_failed_def Let_def)
  have l: "measurePageMetrics_lib (broken_body_env steady_clock) (JStr ''http://example.com/'') =
       Inl (Thrown \<lparr> mf_url = JStr ''http://example.com/'', mf_status = 0,
                     mf_statusText = ''Fetch Failed'', mf_ttfb = 5, mf_totalTime = 12,
                     mf_error = ''terminated'', mf_timestamp = ''2025-01-01T00:00:00.000Z'' \<rparr>)"
    by (simp add: measurePageMetrics_lib_def broken_body_env_def steady_clock_def
        fetch_failed_lib_def Let_def)
  have x: "measurePageMetrics_lib unreachable_env (JStr ''http://unreachable.invalid/'') =
       Inl (Thrown \<lparr> mf_url = JStr ''http://unreachable.invalid/'', mf_status = 0,
                     mf_statusText = ''Fetch Failed'', mf_ttfb = 5, mf_totalTime = 5,
                     mf_error = ''fetch failed'', mf_timestamp = ''2025-01-01T00:00:00.000Z'' \<rparr>)"
    by (simp add: measurePageMetrics_lib_def unreachable_env_def fetch_failed_lib_def Let_def)
  note t1 = ttfb_le_totalTime [where env = "page_env [0x6F, 0x6B] steady_clock"
      and u = "JStr ''http://example.com/''", THEN conjunct1, rule_format, OF r]
  note t4 = ttfb_le_totalTime [where env = "broken_body_env steady_clock"
      and u = "JStr ''http://example.com/''", THEN conjunct2, THEN conjunct2, THEN conjunct2,
      THEN conjunct1, rule_format, OF l]
  from t1 t4 h r b l x show ?thesis by simp
qed

text \<open>
  The claim as stated fails when the clock is set back while the body is read: the
  readings 1000, 1005 and 1002 give a returned result with \<open>ttfb = 5\<close> and
  \<open>totalTime = 2\<close>.
\<close>

theorem ttfb_gt_totalTime_counterexample:
  "map_sum id ttfb (measurePageMetrics (page_env [0x6F, 0x6B] stepping_back_clock)
                      (JStr ''http://example.com/'')) = Inr 5
   \<and> map_sum id totalTime (measurePageMetrics (page_env [0x6F, 0x6B] stepping_back_clock)
                           (JStr ''http://example.com/'')) = Inr 2"
  by (simp add: measurePageMetrics_def fetch_url_def page_env_def stepping_back_clock_def Let_def)

subsection \<open>The preview\<close>

text \<open>
  What \<open>replace_ws_runs\<close> does to a text: the only whitespace left is the space, no two
  whitespace code units are adjacent, and the other code units are kept in their order.
\<close>

lemma replace_ws_runs_spaces:
  "c \<in> set (replace_ws_runs s) \<Longrightarrow> is_ws c \<Longrightarrow> c = 0x0020"
proof (induction s rule: replace_ws_runs.induct)
  case 1
  then show ?case by simp
next
  case (2 d ds)
  then show ?case by (cases "is_ws d") auto
qed

lemma filter_not_dropWhile: "filter (\<lambda>c. \<not> P c) (dropWhile P xs) = filter (\<lambda>c. \<not> P c) xs"
  by (induction xs) auto

lemma replace_ws_runs_keeps_text:
  "filter (\<lambda>c. \<not> is_ws c) (replace_ws_runs s) = filter (\<lambda>c. \<not> is_ws c) s"
proof (induction s rule: replace_ws_runs.induct)
  case 1
  then show ?case by simp
next
  case (2 d ds)
  show ?case
  proof (cases "is_ws d")
    case True
    have "is_ws 0x0020" by (simp add: is_ws_def)
    with 2 True show ?thesis by (simp add: filter_not_dropWhile)
  next
    case False
    with 2 show ?thesis by simp
  qed
qed

lemma replace_ws_runs_head:
  "replace_ws_runs s = c # t \<Longrightarrow> is_ws c \<longleftrightarrow> (\<exists>d ds. s = d # ds \<and> is_ws d)"
  by (cases s) (auto simp: is_ws_def split: if_splits)

lemma replace_ws_runs_single:
  "Suc i < length (replace_ws_runs s) \<Longrightarrow>
     \<not> (is_ws (replace_ws_runs s ! i) \<and> is_ws (replace_ws_runs s ! Suc i))"
proof (induction s arbitrary: i rule: replace_ws_runs.induct)
  case 1
  then show ?case by simp
next
  case (2 d ds)
  show ?case
  proof (cases "is_ws d")
    case True
    let ?rest = "replace_ws_runs (dropWhile is_ws ds)"
    from True have eq: "replace_ws_runs (d # ds) = 0x0020 # ?rest" by simp
    show ?thesis
    proof (cases i)
      case 0
      from 2(3) eq obtain c t where ct: "?rest = c # t" by (cases ?rest) auto
      then have "is_ws c \<longleftrightarrow> (\<exists>e es. dropWhile is_ws ds = e # es \<and> is_ws e)"
        by (rule replace_ws_runs_head)
      moreover have "\<not> (\<exists>e es. dropWhile is_ws ds = e # es \<and> is_ws e)"
        by (metis hd_dropWhile list.sel(1) list.distinct(1))
      ultimately have "\<not> is_ws c" by simp
      with 0 eq ct show ?thesis by simp
    next
      case (Suc j)
      with 2(3) eq have "Suc j < length ?rest" by simp
      with 2(1) [OF True] have "\<not> (is_ws (?rest ! j) \<and> is_ws (?rest ! Suc j))" by blast
      with Suc eq show ?thesis by simp
    qed
  next
    case False
    let ?rest = "replace_ws_runs ds"
    from False have eq: "replace_ws_runs (d # ds) = d # ?rest" by simp
    show ?thesis
    proof (cases i)
      case 0
      with eq False show ?thesis by simp
    next
      case (Suc j)
      with 2(3) eq have "Suc j < length ?rest" by simp
      with 2(2) [OF False] have "\<not> (is_ws (?rest ! j) \<and> is_ws (?rest ! Suc j))" by blast
      with Suc eq show ?thesis by simp
    qed
  qed
qed

lemma length_replace_ws_runs: "length (replace_ws_runs s) \<le> length s"
proof (induction s rule: replace_ws_runs.induct)
  case 1
  then show ?case by simp
next
  case (2 c cs)
  show ?case
  proof (cases "is_ws c")
    case True
    have "length (dropWhile is_ws cs) \<le> length cs" by (rule length_dropWhile_le)
    with 2 True show ?thesis by simp
  next
    case False
    with 2 show ?thesis by simp
  qed
qed

lemma length_trim: "length (trim s) \<le> length s"
  unfolding trim_def
  by (metis length_rev length_dropWhile_le order_trans)

lemma length_html_preview: "length (html_preview html) \<le> 300"
proof -
  have "length (html_preview html) \<le> length (replace_ws_runs (substring0 300 html))"
    unfolding html_preview_def by (rule length_trim)
  also have "\<dots> \<le> length (substring0 300 html)" by (rule length_replace_ws_runs)
  also have "\<dots> \<le> 300" by (simp add: substring0_def)
  finally show ?thesis .
qed

lemma html_preview_short:
  "length html \<le> 300 \<Longrightarrow> html_preview html = trim (replace_ws_runs html)"
  by (simp add: html_preview_def substring0_def)

text \<open>
  Claim C5, as amended. For every fetched body the preview of the returned result has at
  most 300 code units, so also for a body of 1000. For a body of fewer than 300 code
  units the preview is the whole body with every run of whitespace replaced by one space
  and then the whitespace at both ends removed.
\<close>

theorem preview_truncated_collapsed_trimmed:
  "(fetch_url env u = Inr target \<and> page_fetch env target = Inr response
      \<and> pr_text response = Inr html \<and> measurePageMetrics env u = Inr r
    \<longrightarrow> length (htmlPreview r) \<le> 300
        \<and> (length html < 300 \<longrightarrow> htmlPreview r = trim (replace_ws_runs html)))
   \<and> (to_string u = Inr target \<and> page_fetch env target = Inr response
      \<and> pr_text response = Inr html \<and> measurePageMetrics_lib env u = Inr r
    \<longrightarrow> length (htmlPreview r) \<le> 300
        \<and> (length html < 300 \<longrightarrow> htmlPreview r = trim (replace_ws_runs html)))"
  by (auto simp: measurePageMetrics_def measurePageMetrics_lib_def Let_def length_html_preview
      html_preview_short)

theorem preview_truncated_collapsed_trimmed_witness:
  "measurePageMetrics (page_env [0x20, 0x61, 0x09, 0x0A, 0x62, 0x0A] steady_clock)
       (JStr ''http://example.com/'') =
     Inr \<lparr> url = JStr ''http://example.com/'', status = 200, statusText = ''OK'', ttfb = 5,
           totalTime = 12, htmlSize = 6, htmlSizeKB = ''0.01'', headers = Map.empty,
           htmlPreview = [0x61, 0x20, 0x62], timestamp = ''2025-01-01T00:00:00.000Z'',
           error = None \<rparr>
   \<and> trim (replace_ws_runs [0x20, 0x61, 0x09, 0x0A, 0x62, 0x0A]) = [0x61, 0x20, 0x62]"
proof -
  let ?html = "[0x20, 0x61, 0x09, 0x0A, 0x62, 0x0A] :: jstext"
  let ?env = "page_env ?html steady_clock"
  let ?response = "\<lparr> pr_status = 200, pr_statusText = ''OK'', pr_headers = [],
                     pr_text = Inr ?html \<rparr>"
  have target: "fetch_url ?env (JStr ''http://example.com/'') = Inr ''http://example.com/''"
    by (simp add: fetch_url_def)
  have response: "page_fetch ?env ''http://example.com/'' = Inr ?response"
    by (simp add: page_env_def)
  have r: "measurePageMetrics ?env (JStr ''http://example.com/'') =
     Inr \<lparr> url = JStr ''http://example.com/'', status = 200, statusText = ''OK'', ttfb = 5,
           totalTime = 12, htmlSize = 6, htmlSizeKB = ''0.01'', headers = Map.empty,
           htmlPreview = [0x61, 0x20, 0x62], timestamp = ''2025-01-01T00:00:00.000Z'',
           error = None \<rparr>"
    by (simp add: measurePageMetrics_def fetch_url_def page_env_def steady_clock_def Let_def
        is_high_surrogate_def unit_bytes_def size_kb_def digit_def collect_headers_def
        html_preview_def substring0_def trim_def is_ws_def)
  from preview_truncated_collapsed_trimmed [THEN conjunct1, rule_format, of ?env
      "JStr ''http://example.com/''" "''http://example.com/''" ?response ?html] target response r
  show ?thesis by simp
qed

text \<open>
  The claim as stated fails on a body that starts or ends with whitespace: for the three
  code units space, \<open>a\<close>, line feed, the body with its whitespace runs collapsed keeps a
  space at each end, and the preview is \<open>a\<close> alone.
\<close>

theorem preview_not_collapsed_body_counterexample:
  "map_sum id htmlPreview (measurePageMetrics (page_env [0x20, 0x61, 0x0A] steady_clock)
                             (JStr ''http://example.com/'')) = Inr [0x61]
   \<and> replace_ws_runs [0x20, 0x61, 0x0A] = [0x20, 0x61, 0x20]"
  by (simp add: measurePageMetrics_def fetch_url_def page_env_def html_preview_def substring0_def
      trim_def is_ws_def Let_def)

section \<open>Properties of the endpoints\<close>



text \<open>
  Claim C4. When the platform accepts both invalidations, a request whose \<open>slug\<close> is
  \<open>sample\<close> is answered with status 200 and a confirmation that lists exactly
  \<open>/blog/isr/sample\<close> and \<open>/blog/isr-ondemand/sample\<close>, in this order, with the
  timestamp; these two paths are the ones invalidated.
\<close>

theorem revalidate_sample:
  assumes "map_of kvs ''slug'' = Some (JStr ''sample'')"
    and "revalidatePath env ''/blog/isr/sample'' = None"
    and "revalidatePath env ''/blog/isr-ondemand/sample'' = None"
  shows "POST_revalidate env (Inr (JObj kvs)) =
     \<lparr> rv_code = 200,
       rv_body = RvConfirmation True ''Revalidation triggered successfully'' (JStr ''sample'')
                   [''/blog/isr/sample'', ''/blog/isr-ondemand/sample''] (rv_now env),
       invalidated = [''/blog/isr/sample'', ''/blog/isr-ondemand/sample''] \<rparr>"
  using assms by (simp add: POST_revalidate_def Let_def)

theorem revalidate_sample_witness:
  "POST_revalidate accepting_platform (Inr (JObj [(''slug'', JStr ''sample'')])) =
     \<lparr> rv_code = 200,
       rv_body = RvConfirmation True ''Revalidation triggered successfully'' (JStr ''sample'')
                   [''/blog/isr/sample'', ''/blog/isr-ondemand/sample'']
                   ''2025-01-01T00:00:00.000Z'',
       invalidated = [''/blog/isr/sample'', ''/blog/isr-ondemand/sample''] \<rparr>"
  using revalidate_sample [of "[(''slug'', JStr ''sample'')]" accepting_platform]
  by (simp add: accepting_platform_def)

text \<open>
  Claim C9. Two request bodies with the same \<open>slug\<close> entry get the same response and
  cause the same invalidations, whatever their \<open>secret\<close> entries are and whether they
  have one.
\<close>

theorem revalidate_ignores_secret:
  assumes "map_of kvs ''slug'' = map_of kvs' ''slug''"
  shows "POST_revalidate env (Inr (JObj kvs)) = POST_revalidate env (Inr (JObj kvs'))"
  using assms by (simp add: POST_revalidate_def)

theorem revalidate_ignores_secret_witness:
  "POST_revalidate accepting_platform
       (Inr (JObj [(''slug'', JStr ''sample''), (''secret'', JStr ''right'')]))
     = POST_revalidate accepting_platform
         (Inr (JObj [(''slug'', JStr ''sample''), (''secret'', JStr ''wrong'')]))
   \<and> POST_revalidate accepting_platform
       (Inr (JObj [(''slug'', JStr ''sample''), (''secret'', JStr ''right'')]))
     = POST_revalidate accepting_platform (Inr (JObj [(''slug'', JStr ''sample'')]))
   \<and> rv_code (POST_revalidate accepting_platform (Inr (JObj [(''slug'', JStr ''sample'')]))) = 200"
  using revalidate_ignores_secret [of "[(''slug'', JStr ''sample''), (''secret'', JStr ''right'')]"
      "[(''slug'', JStr ''sample''), (''secret'', JStr ''wrong'')]" accepting_platform]
    revalidate_ignores_secret [of "[(''slug'', JStr ''sample''), (''secret'', JStr ''right'')]"
      "[(''slug'', JStr ''sample'')]" accepting_platform]
  by (simp add: POST_revalidate_def accepting_platform_def Let_def)

subsection \<open>Values that cannot be converted to a string\<close>

text \<open>
  A \<open>url\<close> or \<open>slug\<close> that is an object with a \<open>toString\<close> entry of its own: \<open>new URL\<close>
  throws on it, so the metrics handlers answer 400; the template literal of the
  revalidation handler throws on it before any invalidation, so that handler answers 500.
  A \<open>null\<close> request body fails the destructuring with the engine's message.
\<close>

lemma POST_metrics_unconvertible_url:
  "POST_metrics new_URL measurePage
       \<lparr> rq_json = Inr (JObj [(''url'', JObj [(''toString'', JNum False ''1'')])]),
         rq_host = h \<rparr> =
     \<lparr> code = 400, body = ErrorBody ''Invalid URL format'', measured = [] \<rparr>
   \<and> POST_metrics_src new_URL measurePage
       \<lparr> rq_json = Inr (JObj [(''url'', JObj [(''toString'', JNum False ''1'')])]),
         rq_host = h \<rparr> =
     \<lparr> code = 400, body = ErrorBody ''Invalid URL format'', measured = [] \<rparr>"
  by (simp add: POST_metrics_def POST_metrics_src_def construct_URL_def)

lemma POST_metrics_null_body:
  "POST_metrics new_URL measurePage \<lparr> rq_json = Inr JNull, rq_host = h \<rparr> =
     \<lparr> code = 500,
       body = ErrorMessageBody ''Failed to measure metrics''
                (''Cannot destructure property '' @ [CHR 0x27] @ ''url'' @ [CHR 0x27] @ '' of ''
                 @ [CHR 0x27] @ ''body'' @ [CHR 0x27] @ '' as it is null.''),
       measured = [] \<rparr>"
  by (simp add: POST_metrics_def metrics_failed_def)

lemma POST_revalidate_unconvertible_slug:
  "POST_revalidate env (Inr (JObj [(''slug'', JObj [(''toString'', JNum False ''1'')])])) =
     \<lparr> rv_code = 500,
       rv_body = RvErrorMessage ''Failed to revalidate'' ''Cannot convert object to primitive value'',
       invalidated = [] \<rparr>"
  by (simp add: POST_revalidate_def revalidate_failed_def)

lemma collect_headers_proto:
  "collect_headers [(''__proto__'', ''x''), (''content-type'', ''text/html'')] =
     [''content-type'' \<mapsto> ''text/html'']"
  by (simp add: collect_headers_def)

end
